theory Spec2Isabelle
  imports Main
begin

section \<open>Errors\<close>

text \<open>
  The exceptions the code raises, as values. \<open>SysExit msg\<close> stands for the pair
  \<^verbatim>\<open>log.error(msg); sys.exit(1)\<close> of \<^verbatim>\<open>tcbuilder/cli/dto.py\<close>, with the logged message.
  \<open>ImagesNotUnpacked\<close> is what \<^verbatim>\<open>images_unpack_executed\<close> raises (its body is not among the
  sources), \<open>OverlayNotFound\<close> what the overlay lookup raises when a blob is in neither
  directory, and \<open>UncaughtDnsException\<close> any exception of the DNS library that
  \<^verbatim>\<open>resolve_hostname\<close> does not catch.
\<close>

datatype error =
    TorizonCoreBuilderError string
  | PathNotExistError string
  | InvalidDataError string
  | SysExit string
  | AssertionError string
  | ImagesNotUnpacked
  | OverlayNotFound string
  | UncaughtDnsException

section \<open>Hostname resolution (\<^verbatim>\<open>tcbuilder/backend/common.py\<close>)\<close>

text \<open>
  The network is a parameter: \<open>gethostbyname\<close> is the operating system's resolver
  (\<open>None\<close> is \<^verbatim>\<open>socket.gaierror\<close>) and \<open>resolver_query\<close> answers a query of
  \<^verbatim>\<open>dns.resolver.Resolver\<close>. A query is recorded with everything the code configures:
  the name servers, the port, the name, the record type, the lifetime and the source
  address. \<open>resolve_hostname\<close> returns its result together with the list of queries it
  has sent to the multicast resolver.
\<close>

record mdns_query =
  q_nameservers :: "string list"
  q_port :: nat
  q_name :: string
  q_rdtype :: string
  q_lifetime :: nat
  q_source :: "string option"

datatype mdns_response =
    Answer "string list"
  | AnswerNone
  | Timeout
  | OtherDnsFailure

record network =
  gethostbyname :: "string \<Rightarrow> string option"
  resolver_query :: "mdns_query \<Rightarrow> mdns_response"

definition endswith :: "string \<Rightarrow> string \<Rightarrow> bool" where
  "endswith s suf \<longleftrightarrow> length suf \<le> length s \<and> drop (length s - length suf) s = suf"

definition dquote :: string where
  "dquote = [CHR 0x22]"

definition mdns_hostname :: "string \<Rightarrow> string" where
  "mdns_hostname hostname =
     (if endswith hostname ''.local'' then hostname else hostname @ ''.local'')"

definition mdns_request :: "string \<Rightarrow> string option \<Rightarrow> mdns_query" where
  "mdns_request hostname mdns_source =
     \<lparr>q_nameservers = [''224.0.0.251''], q_port = 5353, q_name = mdns_hostname hostname,
      q_rdtype = ''A'', q_lifetime = 3, q_source = mdns_source\<rparr>"

definition resolve_hostname ::
  "network \<Rightarrow> string \<Rightarrow> string option \<Rightarrow> (error + string \<times> bool) \<times> mdns_query list" where
  "resolve_hostname net hostname mdns_source =
     (case gethostbyname net hostname of
        Some ip_addr \<Rightarrow> (Inr (ip_addr, False), [])
      | None \<Rightarrow>
          if \<not> endswith hostname ''.local'' \<and> CHR ''.'' \<in> set hostname
          then (Inl (TorizonCoreBuilderError
                  (''Resolving hostname '' @ dquote @ hostname @ dquote @ '' failed.'')), [])
          else
            let q = mdns_request hostname mdns_source in
            (case resolver_query net q of
               Answer [] \<Rightarrow>
                 (Inl (TorizonCoreBuilderError
                    ''Resolving mDNS address failed with no answer''), [q])
             | Answer (a # rest) \<Rightarrow> (Inr (a, True), [q])
             | AnswerNone \<Rightarrow>
                 (Inl (TorizonCoreBuilderError
                    ''Resolving mDNS address failed with no answer''), [q])
             | Timeout \<Rightarrow>
                 (Inl (TorizonCoreBuilderError
                    (''Resolving hostname '' @ dquote @ mdns_hostname hostname @ dquote
                       @ '' using mDNS failed.'')), [q])
             | OtherDnsFailure \<Rightarrow> (Inl UncaughtDnsException, [q])))"

text \<open>A message names a host when the host name occurs in it.\<close>

definition names_host :: "string \<Rightarrow> string \<Rightarrow> bool" where
  "names_host msg h \<longleftrightarrow> (\<exists>i \<in> set [0 ..< Suc (length msg)]. take (length h) (drop i msg) = h)"

text \<open>Concrete networks for the examples.\<close>

definition net_down :: network where
  "net_down = \<lparr>gethostbyname = (\<lambda>h. None), resolver_query = (\<lambda>q. Timeout)\<rparr>"

definition net_silent :: network where
  "net_silent = \<lparr>gethostbyname = (\<lambda>h. None), resolver_query = (\<lambda>q. Answer [])\<rparr>"

definition net_mdns :: network where
  "net_mdns = \<lparr>gethostbyname = (\<lambda>h. None),
       resolver_query = (\<lambda>q. if q_name q = ''device.local'' then Answer [''192.168.1.7'']
                              else Timeout)\<rparr>"

section \<open>Kernel version discovery (\<^verbatim>\<open>tcbuilder/backend/ostree.py\<close>)\<close>

text \<open>
  \<^verbatim>\<open>ls(repo, path, commit)\<close> lists a directory of a commit through the OSTree library; the
  repository and the commit are represented by that listing function, which raises
  (returns \<open>Inl\<close>) where the path or the commit does not exist. An entry is the
  dictionary \<^verbatim>\<open>{"name": ..., "type": ...}\<close>.
\<close>

record dir_entry =
  entry_name :: string
  entry_type :: string

type_synonym commit_ls = "string \<Rightarrow> error + dir_entry list"

definition has_vmlinuz :: "dir_entry list \<Rightarrow> bool" where
  "has_vmlinuz files \<longleftrightarrow> (\<exists>f \<in> set files. entry_name f = ''vmlinuz'')"

fun scan_module_dirs :: "commit_ls \<Rightarrow> dir_entry list \<Rightarrow> error + string" where
  "scan_module_dirs ls [] = Inr ''''"
| "scan_module_dirs ls (module_dir # rest) =
     (case ls (''/usr/lib/modules/'' @ entry_name module_dir) of
        Inl e \<Rightarrow> Inl e
      | Inr files \<Rightarrow>
          if has_vmlinuz files then Inr (entry_name module_dir)
          else scan_module_dirs ls rest)"

definition get_kernel_version :: "commit_ls \<Rightarrow> error + string" where
  "get_kernel_version ls =
     (case ls ''/usr/lib/modules'' of
        Inl e \<Rightarrow> Inl e
      | Inr module_files \<Rightarrow>
          scan_module_dirs ls (filter (\<lambda>file. entry_type file = ''directory'') module_files))"

definition demo_commit :: commit_ls where
  "demo_commit path =
     (if path = ''/usr/lib/modules'' then
        Inr [\<lparr>entry_name = ''README'', entry_type = ''regular''\<rparr>,
             \<lparr>entry_name = ''5.4.0-old'', entry_type = ''directory''\<rparr>,
             \<lparr>entry_name = ''5.4.77'', entry_type = ''directory''\<rparr>]
      else if path = ''/usr/lib/modules/5.4.0-old'' then
        Inr [\<lparr>entry_name = ''modules.dep'', entry_type = ''regular''\<rparr>]
      else if path = ''/usr/lib/modules/5.4.77'' then
        Inr [\<lparr>entry_name = ''dtb'', entry_type = ''directory''\<rparr>,
             \<lparr>entry_name = ''vmlinuz'', entry_type = ''regular''\<rparr>]
      else Inl (PathNotExistError path))"

section \<open>Path functions of the Python library\<close>

text \<open>
  \<^verbatim>\<open>os.path.basename\<close>, \<^verbatim>\<open>os.path.splitext\<close>, \<^verbatim>\<open>os.path.dirname\<close> and \<^verbatim>\<open>os.path.join\<close> (with two
  arguments) of \<^verbatim>\<open>posixpath\<close>, on strings.
\<close>

definition basename :: "string \<Rightarrow> string" where
  "basename p = rev (takeWhile (\<lambda>c. c \<noteq> CHR ''/'') (rev p))"

definition splitext :: "string \<Rightarrow> string \<times> string" where
  "splitext p =
     (let ext = rev (takeWhile (\<lambda>c. c \<noteq> CHR ''.'') (rev p));
          root = take (length p - length ext - 1) p
      in if CHR ''.'' \<in> set p \<and> CHR ''/'' \<notin> set ext
            \<and> (\<exists>c \<in> set (basename root). c \<noteq> CHR ''.'')
         then (root, drop (length root) p)
         else (p, []))"

definition rstrip_sep :: "string \<Rightarrow> string" where
  "rstrip_sep p = rev (dropWhile (\<lambda>c. c = CHR ''/'') (rev p))"

definition dirname :: "string \<Rightarrow> string" where
  "dirname p =
     (let head = rev (dropWhile (\<lambda>c. c \<noteq> CHR ''/'') (rev p))
      in if head \<noteq> [] \<and> (\<exists>c \<in> set head. c \<noteq> CHR ''/'') then rstrip_sep head else head)"

definition path_join :: "string \<Rightarrow> string \<Rightarrow> string" where
  "path_join a b =
     (if take 1 b = ''/'' then b
      else if a = [] \<or> endswith a ''/'' then a @ b
      else a @ ''/'' @ b)"

section \<open>The working tree and the overlay store\<close>

text \<open>
  The part of the storage directory that the \<^verbatim>\<open>dto\<close> commands read and write, with the
  directory of temporary files:
  \<^item> \<open>unpack_executed\<close>, \<open>image_type\<close>: what \<^verbatim>\<open>images_unpack_executed\<close> checks and what
    \<^verbatim>\<open>unpacked_image_type\<close> returns;
  \<^item> \<open>overlays_txt\<close>: the content of \<^verbatim>\<open>overlays.txt\<close> under the changes directory, if the file
    exists;
  \<^item> \<open>staged_overlays\<close>: the files of the \<^verbatim>\<open>overlays\<close> directory under the changes directory,
    by basename (a missing directory has no files);
  \<^item> \<open>base_overlays\<close>: the files of the overlays directory of the base image;
  \<^item> \<open>tmp_files\<close>: the files made by \<^verbatim>\<open>tempfile.NamedTemporaryFile(delete=False)\<close>, in the
    order of creation; \<open>None\<close> marks one that has been moved away or removed.

  A path to an overlay blob names its directory and its basename. The paths below the
  changes directory are those built as \<open>InChanges\<close>; the base image is not below it.
\<close>

type_synonym blob = string

datatype overlay_path = InChanges string | InBase string | TmpFile nat

record worktree =
  unpack_executed :: bool
  image_type :: string
  overlays_txt :: "string option"
  staged_overlays :: "string \<rightharpoonup> blob"
  base_overlays :: "string \<rightharpoonup> blob"
  tmp_files :: "blob option list"

definition newline :: char where
  "newline = CHR 0x0A"

definition squote :: string where
  "squote = [CHR 0x27]"

text \<open>\<^verbatim>\<open>" ".join(names)\<close> and the line the code writes to \<^verbatim>\<open>overlays.txt\<close>.\<close>

fun join_space :: "string list \<Rightarrow> string" where
  "join_space [] = []"
| "join_space [x] = x"
| "join_space (x # y # ys) = x @ '' '' @ join_space (y # ys)"

definition overlays_txt_content :: "string list \<Rightarrow> string" where
  "overlays_txt_content names = ''fdt_overlays='' @ join_space names @ [newline]"

text \<open>
  Modelled from the spec: \<^verbatim>\<open>tcbuilder/backend/dto.py\<close> is not among the sources, so the
  functions \<^verbatim>\<open>get_applied_overlays_base_names\<close>, \<^verbatim>\<open>find_path_to_overlay\<close> and
  \<^verbatim>\<open>get_applied_overlay_paths\<close> follow sections 4.2 and 6 of the specification. The list of
  applied overlays is read from the manifest and is empty if no manifest exists; the
  manifest is the directive \<^verbatim>\<open>fdt_overlays=\<close> followed by the basenames, separated by spaces,
  up to the end of the line. A blob is searched in the staged overlays directory first,
  else in the overlays directory of the base image, and is not found if it is in
  neither.
\<close>

fun split_words :: "string \<Rightarrow> string \<Rightarrow> string list" where
  "split_words w [] = (if w = [] then [] else [w])"
| "split_words w (c # cs) =
     (if c = CHR '' '' then (if w = [] then split_words [] cs else w # split_words [] cs)
      else split_words (w @ [c]) cs)"

definition parse_overlays_txt :: "string \<Rightarrow> string list" where
  "parse_overlays_txt txt =
     (if take 13 txt = ''fdt_overlays=''
      then split_words [] (takeWhile (\<lambda>c. c \<noteq> newline) (drop 13 txt))
      else [])"

definition get_applied_overlays_base_names :: "worktree \<Rightarrow> string list" where
  "get_applied_overlays_base_names t =
     (case overlays_txt t of None \<Rightarrow> [] | Some txt \<Rightarrow> parse_overlays_txt txt)"

definition find_path_to_overlay :: "worktree \<Rightarrow> string \<Rightarrow> error + overlay_path" where
  "find_path_to_overlay t b =
     (if staged_overlays t b \<noteq> None then Inr (InChanges b)
      else if base_overlays t b \<noteq> None then Inr (InBase b)
      else Inl (OverlayNotFound b))"

fun get_applied_overlay_paths :: "worktree \<Rightarrow> string list \<Rightarrow> error + overlay_path list" where
  "get_applied_overlay_paths t [] = Inr []"
| "get_applied_overlay_paths t (b # bs) =
     (case find_path_to_overlay t b of
        Inl e \<Rightarrow> Inl e
      | Inr p \<Rightarrow>
          (case get_applied_overlay_paths t bs of
             Inl e \<Rightarrow> Inl e
           | Inr ps \<Rightarrow> Inr (p # ps)))"

text \<open>
  \<^verbatim>\<open>dtob_path.startswith(dt_changes_dir)\<close>, and \<^verbatim>\<open>os.remove\<close> on a path of any of the three
  directories.
\<close>

fun startswith_dt_changes_dir :: "overlay_path \<Rightarrow> bool" where
  "startswith_dt_changes_dir (InChanges b) = True"
| "startswith_dt_changes_dir (InBase b) = False"
| "startswith_dt_changes_dir (TmpFile n) = False"

fun os_remove :: "overlay_path \<Rightarrow> worktree \<Rightarrow> worktree" where
  "os_remove (InChanges b) t = t\<lparr>staged_overlays := (staged_overlays t)(b := None)\<rparr>"
| "os_remove (InBase b) t = t\<lparr>base_overlays := (base_overlays t)(b := None)\<rparr>"
| "os_remove (TmpFile n) t = t\<lparr>tmp_files := (tmp_files t)[n := None]\<rparr>"

text \<open>
  The external tools are parameters: the device-tree compiler behind \<^verbatim>\<open>dt.build_dts\<close> (the
  compiled blob, or \<open>None\<close> when it fails), \<^verbatim>\<open>dt.get_current_dtb_path\<close> (a path and whether
  it is exact) and the overlay test behind \<^verbatim>\<open>dto.modify_dtb_by_overlays\<close> (the merged blob,
  or \<open>None\<close> when the overlays do not apply), which reads the files at the paths it is
  given.
\<close>

record tools =
  build_dts :: "string \<Rightarrow> string list \<Rightarrow> blob option"
  get_current_dtb_path :: "worktree \<Rightarrow> string \<times> bool"
  modify_dtb_by_overlays :: "worktree \<Rightarrow> string \<Rightarrow> overlay_path list \<Rightarrow> blob option"

section \<open>The \<^verbatim>\<open>dto\<close> commands (\<^verbatim>\<open>tcbuilder/cli/dto.py\<close>)\<close>

text \<open>The guard that opens \<^verbatim>\<open>dto_apply\<close>, \<^verbatim>\<open>dto_remove_single\<close> and \<^verbatim>\<open>dto_remove_all\<close>.\<close>

definition dto_guard :: "worktree \<Rightarrow> error option" where
  "dto_guard t =
     (if \<not> unpack_executed t then Some ImagesNotUnpacked
      else if image_type t = ''wic''
      then Some (InvalidDataError ''dto commands are not supported for WIC images. Aborting.'')
      else None)"

text \<open>
  \<^verbatim>\<open>tempfile.NamedTemporaryFile(delete=False)\<close> leaves a new, empty file behind and gives
  its name.
\<close>

definition named_temporary_file :: "worktree \<Rightarrow> nat \<times> worktree" where
  "named_temporary_file t = (length (tmp_files t), t\<lparr>tmp_files := tmp_files t @ [Some []]\<rparr>)"

definition write_tmp :: "nat \<Rightarrow> blob \<Rightarrow> worktree \<Rightarrow> worktree" where
  "write_tmp n b t = t\<lparr>tmp_files := (tmp_files t)[n := Some b]\<rparr>"

definition dtob_target_basename :: "string \<Rightarrow> string" where
  "dtob_target_basename dtos_path = fst (splitext (basename dtos_path)) @ ''.dtbo''"

text \<open>Lines 79 to 95: the device-tree blob to test against.\<close>

definition choose_dtb_path :: "tools \<Rightarrow> worktree \<Rightarrow> string option \<Rightarrow> error + string" where
  "choose_dtb_path env t dtb_path =
     (case dtb_path of
        Some b \<Rightarrow>
          if b \<noteq> [] then Inr (path_join (dirname (fst (get_current_dtb_path env t))) b)
          else if \<not> snd (get_current_dtb_path env t)
          then Inl (SysExit
                 ''error: could not find the device tree to check the overlay against.'')
          else Inr (fst (get_current_dtb_path env t))
      | None \<Rightarrow>
          if \<not> snd (get_current_dtb_path env t)
          then Inl (SysExit
                 ''error: could not find the device tree to check the overlay against.'')
          else Inr (fst (get_current_dtb_path env t)))"

text \<open>Lines 78 to 106: the test application; \<open>None\<close> when it passes.\<close>

definition test_apply_overlays ::
  "tools \<Rightarrow> string \<Rightarrow> string option \<Rightarrow> string list \<Rightarrow> nat \<Rightarrow> worktree
     \<Rightarrow> error option \<times> worktree" where
  "test_apply_overlays env dtos_path dtb_path applied_overlay_basenames dtob_tmp_path t =
     (case choose_dtb_path env t dtb_path of
        Inl e \<Rightarrow> (Some e, t)
      | Inr dtb \<Rightarrow>
          (case get_applied_overlay_paths t applied_overlay_basenames of
             Inl e \<Rightarrow> (Some e, t)
           | Inr applied_overlay_paths \<Rightarrow>
               (case modify_dtb_by_overlays env (snd (named_temporary_file t)) dtb
                       (applied_overlay_paths @ [TmpFile dtob_tmp_path]) of
                  None \<Rightarrow>
                    (Some (SysExit (''error: overlay '' @ squote @ dtos_path @ squote
                                      @ '' is not applicable.'')),
                     snd (named_temporary_file t))
                | Some merged \<Rightarrow>
                    (None, write_tmp (fst (named_temporary_file t)) merged
                             (snd (named_temporary_file t))))))"

text \<open>
  Lines 108 to 121: \<^verbatim>\<open>shutil.move\<close> of the compiled blob into the staged overlays
  directory, then the manifest.
\<close>

definition deploy_overlay :: "string \<Rightarrow> nat \<Rightarrow> string list \<Rightarrow> worktree \<Rightarrow> worktree" where
  "deploy_overlay target dtob_tmp_path applied_overlay_basenames t =
     t\<lparr>staged_overlays := (staged_overlays t)(target := tmp_files t ! dtob_tmp_path),
       tmp_files := (tmp_files t)[dtob_tmp_path := None],
       overlays_txt := Some (overlays_txt_content (applied_overlay_basenames @ [target]))\<rparr>"

definition dto_apply ::
  "tools \<Rightarrow> string \<Rightarrow> string option \<Rightarrow> string list \<Rightarrow> bool \<Rightarrow> bool \<Rightarrow> worktree
     \<Rightarrow> (error + unit) \<times> worktree" where
  "dto_apply env dtos_path dtb_path include_dirs allow_reapply test_apply t =
     (case dto_guard t of
        Some e \<Rightarrow> (Inl e, t)
      | None \<Rightarrow>
          let applied = get_applied_overlays_base_names t;
              target = dtob_target_basename dtos_path
          in
          if \<not> allow_reapply \<and> target \<in> set applied
          then (Inl (SysExit (''error: overlay '' @ target @ '' is already applied.'')), t)
          else
            let applied' = (if target \<in> set applied then remove1 target applied else applied);
                dtob_tmp_path = fst (named_temporary_file t);
                t1 = snd (named_temporary_file t)
            in
            (case build_dts env dtos_path include_dirs of
               None \<Rightarrow> (Inl (SysExit (''error: cannot apply '' @ dtos_path @ ''.'')), t1)
             | Some dtob \<Rightarrow>
                 (case (if test_apply
                        then test_apply_overlays env dtos_path dtb_path applied' dtob_tmp_path
                               (write_tmp dtob_tmp_path dtob t1)
                        else (None, write_tmp dtob_tmp_path dtob t1)) of
                    (Some e, t3) \<Rightarrow> (Inl e, t3)
                  | (None, t3) \<Rightarrow>
                      (Inr (), deploy_overlay target dtob_tmp_path applied' t3))))"

definition dto_remove_single :: "string \<Rightarrow> bool \<Rightarrow> worktree \<Rightarrow> (error + bool) \<times> worktree" where
  "dto_remove_single dtob_basename presence_required t =
     (case dto_guard t of
        Some e \<Rightarrow> (Inl e, t)
      | None \<Rightarrow>
          let dtob_basenames = get_applied_overlays_base_names t in
          if dtob_basename \<notin> set dtob_basenames
          then (if presence_required
                then (Inl (SysExit (''error: overlay '' @ squote @ dtob_basename @ squote
                                      @ '' is already not applied.'')), t)
                else (Inr False, t))
          else
            let t1 = t\<lparr>overlays_txt :=
                         Some (overlays_txt_content (remove1 dtob_basename dtob_basenames))\<rparr>
            in
            (case find_path_to_overlay t1 dtob_basename of
               Inl e \<Rightarrow> (Inl e, t1)
             | Inr dtob_path \<Rightarrow>
                 (Inr True,
                  if startswith_dt_changes_dir dtob_path then os_remove dtob_path t1 else t1)))"

definition dto_remove_all :: "worktree \<Rightarrow> (error + unit) \<times> worktree" where
  "dto_remove_all t =
     (case dto_guard t of
        Some e \<Rightarrow> (Inl e, t)
      | None \<Rightarrow>
          let t1 = t\<lparr>overlays_txt := Some (''fdt_overlays='' @ [newline])\<rparr>;
              t2 = t1\<lparr>staged_overlays := Map.empty\<rparr>
          in
          if get_applied_overlays_base_names t2 \<noteq> []
          then (Inl (AssertionError
                  ''panic: all overlays removal failed; please contact the maintainers of this tool.''),
                t2)
          else (Inr (), t2))"

text \<open>
  Sequences of commands on one working tree; a command that fails leaves the tree as
  it was when the error was raised.
\<close>

datatype dto_command =
    Apply string "string option" "string list" bool bool
  | RemoveSingle string bool
  | RemoveAll

fun run_command :: "tools \<Rightarrow> dto_command \<Rightarrow> worktree \<Rightarrow> worktree" where
  "run_command env (Apply dtos_path dtb_path include_dirs allow_reapply test_apply) t =
     snd (dto_apply env dtos_path dtb_path include_dirs allow_reapply test_apply t)"
| "run_command env (RemoveSingle dtob_basename presence_required) t =
     snd (dto_remove_single dtob_basename presence_required t)"
| "run_command env RemoveAll t = snd (dto_remove_all t)"

fun states_after :: "tools \<Rightarrow> worktree \<Rightarrow> dto_command list \<Rightarrow> worktree list" where
  "states_after env t [] = []"
| "states_after env t (c # cs) = run_command env c t # states_after env (run_command env c t) cs"

text \<open>A fresh working tree has no manifest and no staged overlay.\<close>

definition fresh :: "worktree \<Rightarrow> bool" where
  "fresh t \<longleftrightarrow> overlays_txt t = None \<and> staged_overlays t = Map.empty"

definition staged_files :: "worktree \<Rightarrow> string set" where
  "staged_files t = dom (staged_overlays t)"

text \<open>A basename that the manifest can hold: not empty, without a space or a line break.\<close>

definition plain_name :: "string \<Rightarrow> bool" where
  "plain_name n \<longleftrightarrow> n \<noteq> [] \<and> CHR '' '' \<notin> set n \<and> newline \<notin> set n"

text \<open>Concrete tools and working trees for the examples.\<close>

definition demo_tools :: tools where
  "demo_tools =
     \<lparr>build_dts = (\<lambda>dtos_path include_dirs. Some (''blob of '' @ dtos_path)),
      get_current_dtb_path =
        (\<lambda>t. (''/sysroot/usr/lib/modules/5.4.77/dtb/imx8qm-apalis.dtb'', True)),
      modify_dtb_by_overlays = (\<lambda>t dtb paths. Some ''merged'')\<rparr>"

definition strict_tools :: tools where
  "strict_tools = demo_tools\<lparr>modify_dtb_by_overlays := (\<lambda>t dtb paths. None)\<rparr>"

definition empty_tree :: worktree where
  "empty_tree =
     \<lparr>unpack_executed = True, image_type = ''tezi'', overlays_txt = None,
      staged_overlays = Map.empty, base_overlays = Map.empty, tmp_files = []\<rparr>"

definition one_overlay_tree :: worktree where
  "one_overlay_tree =
     empty_tree\<lparr>overlays_txt := Some (''fdt_overlays=a.dtbo'' @ [newline]),
                staged_overlays := [''a.dtbo'' \<mapsto> ''blob of a.dts'']\<rparr>"

definition wic_tree :: worktree where
  "wic_tree = one_overlay_tree\<lparr>image_type := ''wic''\<rparr>"

definition dup_tree :: worktree where
  "dup_tree =
     run_command demo_tools (Apply ''a.dtbo x.dts'' None [] False False)
       (run_command demo_tools (Apply ''a.dts'' None [] False False) empty_tree)"


definition base_overlay_tree :: worktree where
  "base_overlay_tree =
     empty_tree\<lparr>overlays_txt := Some (''fdt_overlays=b.dtbo'' @ [newline]),
                base_overlays := [''b.dtbo'' \<mapsto> ''blob of the image'']\<rparr>"

text \<open>
  A command whose overlay basename the manifest can hold: the target basename of an
  applied source has no space and no line break.
\<close>

fun command_plain :: "dto_command \<Rightarrow> bool" where
  "command_plain (Apply dtos_path dtb_path include_dirs allow_reapply test_apply) =
     plain_name (dtob_target_basename dtos_path)"
| "command_plain (RemoveSingle dtob_basename presence_required) = True"
| "command_plain RemoveAll = True"

text \<open>The manifest and the staged overlays directory agree, and no basename is listed twice.\<close>

definition consistent :: "worktree \<Rightarrow> bool" where
  "consistent t \<longleftrightarrow>
     distinct (get_applied_overlays_base_names t)
     \<and> set (get_applied_overlays_base_names t) = staged_files t"

definition picky_tools :: tools where
  "picky_tools =
     demo_tools\<lparr>modify_dtb_by_overlays :=
        (\<lambda>t dtb paths. if dtb = ''/tmp/other.dtb'' then Some ''merged'' else None)\<rparr>"

section \<open>Results about hostname resolution\<close>

lemma endswith_append_self: "endswith (h @ suf) suf"
  by (simp add: endswith_def)

lemma mdns_hostname_local: "endswith (mdns_hostname h) ''.local''"
  unfolding mdns_hostname_def using endswith_append_self [of h "''.local''"] by simp

lemma names_host_middle: "names_host (pre @ h @ post) h"
proof -
  have "length pre \<in> set [0 ..< Suc (length (pre @ h @ post))]" by simp
  moreover have "take (length h) (drop (length pre) (pre @ h @ post)) = h" by simp
  ultimately show ?thesis unfolding names_host_def by blast
qed

text \<open>
  C5. A hostname that the standard resolver rejects, that does not end with
  \<^verbatim>\<open>.local\<close> and that contains a dot, makes \<open>resolve_hostname\<close> fail at once with the
  resolution error for that name, and no query is sent to the multicast resolver.
\<close>

theorem C5_no_mdns_for_qualified_names:
  assumes "gethostbyname net hostname = None"
    and "\<not> endswith hostname ''.local''"
    and "CHR ''.'' \<in> set hostname"
  shows "resolve_hostname net hostname mdns_source =
           (Inl (TorizonCoreBuilderError
              (''Resolving hostname '' @ dquote @ hostname @ dquote @ '' failed.'')), [])"
  using assms by (simp add: resolve_hostname_def)

theorem C5_witness:
  "gethostbyname net_down ''badhost.example.com'' = None
   \<and> \<not> endswith ''badhost.example.com'' ''.local''
   \<and> CHR ''.'' \<in> set ''badhost.example.com''
   \<and> snd (resolve_hostname net_down ''badhost.example.com'' None) = []
   \<and> (\<exists>msg. fst (resolve_hostname net_down ''badhost.example.com'' None)
               = Inl (TorizonCoreBuilderError msg))"
proof -
  have a: "gethostbyname net_down ''badhost.example.com'' = None"
    by (simp add: net_down_def)
  have b: "\<not> endswith ''badhost.example.com'' ''.local''"
    by (simp add: endswith_def)
  have c: "CHR ''.'' \<in> set ''badhost.example.com''"
    by simp
  show ?thesis
    using a b c C5_no_mdns_for_qualified_names [OF a b c, of None] by simp
qed

lemma resolve_hostname_fallback:
  assumes "gethostbyname net hostname = None"
    and "CHR ''.'' \<notin> set hostname \<or> endswith hostname ''.local''"
  shows "resolve_hostname net hostname mdns_source =
     (case resolver_query net (mdns_request hostname mdns_source) of
        Answer [] \<Rightarrow>
          (Inl (TorizonCoreBuilderError ''Resolving mDNS address failed with no answer''),
           [mdns_request hostname mdns_source])
      | Answer (a # rest) \<Rightarrow> (Inr (a, True), [mdns_request hostname mdns_source])
      | AnswerNone \<Rightarrow>
          (Inl (TorizonCoreBuilderError ''Resolving mDNS address failed with no answer''),
           [mdns_request hostname mdns_source])
      | Timeout \<Rightarrow>
          (Inl (TorizonCoreBuilderError
             (''Resolving hostname '' @ dquote @ mdns_hostname hostname @ dquote
                @ '' using mDNS failed.'')), [mdns_request hostname mdns_source])
      | OtherDnsFailure \<Rightarrow> (Inl UncaughtDnsException, [mdns_request hostname mdns_source]))"
proof -
  have guard: "(\<not> endswith hostname ''.local'' \<and> CHR ''.'' \<in> set hostname) = False"
    using assms(2) by blast
  show ?thesis
    unfolding resolve_hostname_def Let_def assms(1) guard by simp
qed

text \<open>
  C6 (as amended). A hostname that the standard resolver rejects and that is a bare name
  (no dot) or ends with \<^verbatim>\<open>.local\<close> makes \<open>resolve_hostname\<close> send exactly one query: to
  224.0.0.251, port 5353, record type A, lifetime 3, the given source address, for the
  name with \<^verbatim>\<open>.local\<close> appended unless it ends with it already. A non-empty answer gives
  its first address with \<open>used_mdns = True\<close>. A timeout fails with a resolution error
  whose message names the multicast hostname. An empty or missing answer fails with the
  resolution error \<^verbatim>\<open>Resolving mDNS address failed with no answer\<close>, which names no host.
\<close>

theorem C6_mdns_fallback:
  assumes "gethostbyname net hostname = None"
    and "CHR ''.'' \<notin> set hostname \<or> endswith hostname ''.local''"
  shows "snd (resolve_hostname net hostname mdns_source) =
           [\<lparr>q_nameservers = [''224.0.0.251''], q_port = 5353,
             q_name = (if endswith hostname ''.local'' then hostname else hostname @ ''.local''),
             q_rdtype = ''A'', q_lifetime = 3, q_source = mdns_source\<rparr>]
     \<and> (\<forall>a rest. resolver_query net (mdns_request hostname mdns_source) = Answer (a # rest) \<longrightarrow>
           fst (resolve_hostname net hostname mdns_source) = Inr (a, True))
     \<and> (resolver_query net (mdns_request hostname mdns_source) = Timeout \<longrightarrow>
           (\<exists>msg. fst (resolve_hostname net hostname mdns_source) = Inl (TorizonCoreBuilderError msg)
                \<and> names_host msg (mdns_hostname hostname)))
     \<and> (resolver_query net (mdns_request hostname mdns_source) = Answer []
           \<or> resolver_query net (mdns_request hostname mdns_source) = AnswerNone \<longrightarrow>
           fst (resolve_hostname net hostname mdns_source) =
             Inl (TorizonCoreBuilderError ''Resolving mDNS address failed with no answer''))"
proof -
  let ?q = "mdns_request hostname mdns_source"
  note fb = resolve_hostname_fallback [OF assms, of mdns_source]
  have "snd (resolve_hostname net hostname mdns_source) = [?q]"
    unfolding fb by (simp split: mdns_response.split list.split)
  then have one: "snd (resolve_hostname net hostname mdns_source) =
           [\<lparr>q_nameservers = [''224.0.0.251''], q_port = 5353,
             q_name = (if endswith hostname ''.local'' then hostname else hostname @ ''.local''),
             q_rdtype = ''A'', q_lifetime = 3, q_source = mdns_source\<rparr>]"
    by (simp add: mdns_request_def mdns_hostname_def)
  have two: "\<forall>a rest. resolver_query net ?q = Answer (a # rest) \<longrightarrow>
           fst (resolve_hostname net hostname mdns_source) = Inr (a, True)"
    unfolding fb by simp
  have three: "resolver_query net ?q = Timeout \<longrightarrow>
           (\<exists>msg. fst (resolve_hostname net hostname mdns_source) = Inl (TorizonCoreBuilderError msg)
                \<and> names_host msg (mdns_hostname hostname))"
  proof
    assume t: "resolver_query net ?q = Timeout"
    have n: "names_host ((''Resolving hostname '' @ dquote) @ mdns_hostname hostname
               @ (dquote @ '' using mDNS failed.'')) (mdns_hostname hostname)"
      by (rule names_host_middle)
    have "fst (resolve_hostname net hostname mdns_source) =
            Inl (TorizonCoreBuilderError ((''Resolving hostname '' @ dquote)
               @ mdns_hostname hostname @ (dquote @ '' using mDNS failed.'')))"
      unfolding fb t by simp
    with n show "\<exists>msg. fst (resolve_hostname net hostname mdns_source)
                    = Inl (TorizonCoreBuilderError msg)
                \<and> names_host msg (mdns_hostname hostname)"
      by blast
  qed
  have four: "resolver_query net ?q = Answer [] \<or> resolver_query net ?q = AnswerNone \<longrightarrow>
           fst (resolve_hostname net hostname mdns_source) =
             Inl (TorizonCoreBuilderError ''Resolving mDNS address failed with no answer'')"
    unfolding fb by auto
  from one two three four show ?thesis by blast
qed

theorem C6_witness:
  "gethostbyname net_mdns ''device'' = None
   \<and> CHR ''.'' \<notin> set ''device''
   \<and> resolve_hostname net_mdns ''device'' (Some ''10.0.0.1'') =
       (Inr (''192.168.1.7'', True),
        [\<lparr>q_nameservers = [''224.0.0.251''], q_port = 5353, q_name = ''device.local'',
          q_rdtype = ''A'', q_lifetime = 3, q_source = Some ''10.0.0.1''\<rparr>])"
proof -
  have a: "gethostbyname net_mdns ''device'' = None" by (simp add: net_mdns_def)
  have b: "CHR ''.'' \<notin> set ''device'' \<or> endswith ''device'' ''.local''" by simp
  have c: "resolver_query net_mdns (mdns_request ''device'' (Some ''10.0.0.1''))
             = Answer (''192.168.1.7'' # [])"
    by (simp add: net_mdns_def mdns_request_def mdns_hostname_def endswith_def)
  have e: "\<not> endswith ''device'' ''.local''" by (simp add: endswith_def)
  show ?thesis
    using a c e C6_mdns_fallback [OF a b, of "Some ''10.0.0.1''"]
    by (simp add: prod_eq_iff)
qed

text \<open>
  C6 as stated fails on an empty answer: for the bare name \<^verbatim>\<open>device\<close> the error message does
  not name \<^verbatim>\<open>device.local\<close>.
\<close>

theorem C6_counterexample:
  "gethostbyname net_silent ''device'' = None
   \<and> CHR ''.'' \<notin> set ''device''
   \<and> fst (resolve_hostname net_silent ''device'' None) =
        Inl (TorizonCoreBuilderError ''Resolving mDNS address failed with no answer'')
   \<and> mdns_hostname ''device'' = ''device.local''
   \<and> \<not> names_host ''Resolving mDNS address failed with no answer'' ''device.local''"
  by (simp add: net_silent_def resolve_hostname_def mdns_request_def mdns_hostname_def
        endswith_def names_host_def upt_rec)


section \<open>Results about kernel version discovery\<close>

lemma scan_module_dirs_sound:
  "scan_module_dirs ls ds = Inr v \<Longrightarrow> v \<noteq> [] \<Longrightarrow>
     \<exists>d \<in> set ds. entry_name d = v
        \<and> (\<exists>files. ls (''/usr/lib/modules/'' @ v) = Inr files
               \<and> (\<exists>f \<in> set files. entry_name f = ''vmlinuz''))"
proof (induction ds)
  case Nil
  then show ?case by simp
next
  case (Cons d ds)
  show ?case
  proof (cases "ls (''/usr/lib/modules/'' @ entry_name d)")
    case (Inl e)
    with Cons.prems show ?thesis by simp
  next
    case (Inr files)
    show ?thesis
    proof (cases "\<exists>f \<in> set files. entry_name f = ''vmlinuz''")
      case True
      with Inr Cons.prems have "v = entry_name d" by (simp add: has_vmlinuz_def)
      with Inr True show ?thesis by auto
    next
      case False
      with Inr Cons.prems have "scan_module_dirs ls ds = Inr v" by (simp add: has_vmlinuz_def)
      from Cons.IH [OF this Cons.prems(2)] show ?thesis by auto
    qed
  qed
qed

lemma scan_module_dirs_skip:
  assumes "\<forall>d' \<in> set pre. \<exists>fs. ls (''/usr/lib/modules/'' @ entry_name d') = Inr fs
             \<and> (\<forall>f \<in> set fs. entry_name f \<noteq> ''vmlinuz'')"
  shows "scan_module_dirs ls (pre @ rest) = scan_module_dirs ls rest"
  using assms
proof (induction pre)
  case Nil
  then show ?case by simp
next
  case (Cons d pre)
  then obtain fs where fs: "ls (''/usr/lib/modules/'' @ entry_name d) = Inr fs"
      "\<forall>f \<in> set fs. entry_name f \<noteq> ''vmlinuz''"
    by auto
  have "\<not> has_vmlinuz fs" using fs(2) by (simp add: has_vmlinuz_def)
  with fs(1) have "scan_module_dirs ls ((d # pre) @ rest) = scan_module_dirs ls (pre @ rest)"
    by simp
  with Cons show ?case by simp
qed

text \<open>
  C9. \<open>get_kernel_version\<close> lists \<^verbatim>\<open>/usr/lib/modules\<close> and walks its entries of type
  \<^verbatim>\<open>directory\<close> in the order of the listing. A non-empty result is the name of one of
  these subdirectories, and the listing of that subdirectory has an entry named
  \<^verbatim>\<open>vmlinuz\<close>. The subdirectory chosen is the first that has such an entry: when the
  subdirectories before it can be listed and have none, its name is returned, whatever
  comes after it. When no subdirectory has an entry named \<^verbatim>\<open>vmlinuz\<close>, the result is the
  empty string.
\<close>

theorem C9_kernel_version:
  assumes "ls ''/usr/lib/modules'' = Inr module_files"
  shows "(\<forall>v. get_kernel_version ls = Inr v \<and> v \<noteq> [] \<longrightarrow>
            (\<exists>d \<in> set module_files. entry_type d = ''directory'' \<and> entry_name d = v
               \<and> (\<exists>files. ls (''/usr/lib/modules/'' @ v) = Inr files
                      \<and> (\<exists>f \<in> set files. entry_name f = ''vmlinuz''))))
     \<and> (\<forall>pre d post files.
            filter (\<lambda>file. entry_type file = ''directory'') module_files = pre @ d # post
            \<and> (\<forall>d' \<in> set pre. \<exists>fs. ls (''/usr/lib/modules/'' @ entry_name d') = Inr fs
                   \<and> (\<forall>f \<in> set fs. entry_name f \<noteq> ''vmlinuz''))
            \<and> ls (''/usr/lib/modules/'' @ entry_name d) = Inr files
            \<and> (\<exists>f \<in> set files. entry_name f = ''vmlinuz'')
          \<longrightarrow> get_kernel_version ls = Inr (entry_name d))
     \<and> ((\<forall>d \<in> set module_files. entry_type d = ''directory'' \<longrightarrow>
              (\<exists>fs. ls (''/usr/lib/modules/'' @ entry_name d) = Inr fs
                  \<and> (\<forall>f \<in> set fs. entry_name f \<noteq> ''vmlinuz'')))
          \<longrightarrow> get_kernel_version ls = Inr [])"
proof -
  let ?dirs = "filter (\<lambda>file. entry_type file = ''directory'') module_files"
  have gkv: "get_kernel_version ls = scan_module_dirs ls ?dirs"
    by (simp add: get_kernel_version_def assms)
  have sound: "\<forall>v. get_kernel_version ls = Inr v \<and> v \<noteq> [] \<longrightarrow>
            (\<exists>d \<in> set module_files. entry_type d = ''directory'' \<and> entry_name d = v
               \<and> (\<exists>files. ls (''/usr/lib/modules/'' @ v) = Inr files
                      \<and> (\<exists>f \<in> set files. entry_name f = ''vmlinuz'')))"
  proof (intro allI impI)
    fix v assume h: "get_kernel_version ls = Inr v \<and> v \<noteq> []"
    then obtain d where "d \<in> set ?dirs" "entry_name d = v"
        "\<exists>files. ls (''/usr/lib/modules/'' @ v) = Inr files
               \<and> (\<exists>f \<in> set files. entry_name f = ''vmlinuz'')"
      using scan_module_dirs_sound [of ls ?dirs v] gkv by auto
    then show "\<exists>d \<in> set module_files. entry_type d = ''directory'' \<and> entry_name d = v
               \<and> (\<exists>files. ls (''/usr/lib/modules/'' @ v) = Inr files
                      \<and> (\<exists>f \<in> set files. entry_name f = ''vmlinuz''))"
      by auto
  qed
  have first: "\<forall>pre d post files.
            ?dirs = pre @ d # post
            \<and> (\<forall>d' \<in> set pre. \<exists>fs. ls (''/usr/lib/modules/'' @ entry_name d') = Inr fs
                   \<and> (\<forall>f \<in> set fs. entry_name f \<noteq> ''vmlinuz''))
            \<and> ls (''/usr/lib/modules/'' @ entry_name d) = Inr files
            \<and> (\<exists>f \<in> set files. entry_name f = ''vmlinuz'')
          \<longrightarrow> get_kernel_version ls = Inr (entry_name d)"
  proof (intro allI impI, elim conjE)
    fix pre d post files
    assume split: "?dirs = pre @ d # post"
      and before: "\<forall>d' \<in> set pre. \<exists>fs. ls (''/usr/lib/modules/'' @ entry_name d') = Inr fs
                   \<and> (\<forall>f \<in> set fs. entry_name f \<noteq> ''vmlinuz'')"
      and here: "ls (''/usr/lib/modules/'' @ entry_name d) = Inr files"
      and image: "\<exists>f \<in> set files. entry_name f = ''vmlinuz''"
    have "scan_module_dirs ls (pre @ d # post) = scan_module_dirs ls (d # post)"
      by (rule scan_module_dirs_skip [OF before])
    also have "\<dots> = Inr (entry_name d)"
      using here image by (simp add: has_vmlinuz_def)
    finally show "get_kernel_version ls = Inr (entry_name d)"
      unfolding gkv split .
  qed
  have none: "(\<forall>d \<in> set module_files. entry_type d = ''directory'' \<longrightarrow>
              (\<exists>fs. ls (''/usr/lib/modules/'' @ entry_name d) = Inr fs
                  \<and> (\<forall>f \<in> set fs. entry_name f \<noteq> ''vmlinuz'')))
          \<longrightarrow> get_kernel_version ls = Inr []"
  proof
    assume a: "\<forall>d \<in> set module_files. entry_type d = ''directory'' \<longrightarrow>
              (\<exists>fs. ls (''/usr/lib/modules/'' @ entry_name d) = Inr fs
                  \<and> (\<forall>f \<in> set fs. entry_name f \<noteq> ''vmlinuz''))"
    then have "\<forall>d' \<in> set ?dirs. \<exists>fs. ls (''/usr/lib/modules/'' @ entry_name d') = Inr fs
                   \<and> (\<forall>f \<in> set fs. entry_name f \<noteq> ''vmlinuz'')"
      by simp
    from scan_module_dirs_skip [OF this, of "[]"]
    show "get_kernel_version ls = Inr []" unfolding gkv by simp
  qed
  from sound first none show ?thesis by blast
qed

theorem C9_witness:
  "demo_commit ''/usr/lib/modules'' =
      Inr [\<lparr>entry_name = ''README'', entry_type = ''regular''\<rparr>,
           \<lparr>entry_name = ''5.4.0-old'', entry_type = ''directory''\<rparr>,
           \<lparr>entry_name = ''5.4.77'', entry_type = ''directory''\<rparr>]
   \<and> demo_commit ''/usr/lib/modules/5.4.0-old'' =
      Inr [\<lparr>entry_name = ''modules.dep'', entry_type = ''regular''\<rparr>]
   \<and> demo_commit ''/usr/lib/modules/5.4.77'' =
      Inr [\<lparr>entry_name = ''dtb'', entry_type = ''directory''\<rparr>,
           \<lparr>entry_name = ''vmlinuz'', entry_type = ''regular''\<rparr>]
   \<and> get_kernel_version demo_commit = Inr ''5.4.77''"
proof -
  let ?old = "\<lparr>entry_name = ''5.4.0-old'', entry_type = ''directory''\<rparr>"
  let ?new = "\<lparr>entry_name = ''5.4.77'', entry_type = ''directory''\<rparr>"
  let ?files = "[\<lparr>entry_name = ''dtb'', entry_type = ''directory''\<rparr>,
                 \<lparr>entry_name = ''vmlinuz'', entry_type = ''regular''\<rparr>]"
  have a: "demo_commit ''/usr/lib/modules'' =
      Inr [\<lparr>entry_name = ''README'', entry_type = ''regular''\<rparr>, ?old, ?new]"
    by (simp add: demo_commit_def)
  have o: "demo_commit ''/usr/lib/modules/5.4.0-old'' =
      Inr [\<lparr>entry_name = ''modules.dep'', entry_type = ''regular''\<rparr>]"
    by (simp add: demo_commit_def)
  have n: "demo_commit ''/usr/lib/modules/5.4.77'' = Inr ?files"
    by (simp add: demo_commit_def)
  have split: "filter (\<lambda>file. entry_type file = ''directory'')
                 [\<lparr>entry_name = ''README'', entry_type = ''regular''\<rparr>, ?old, ?new]
               = [?old] @ ?new # []"
    by simp
  have before: "\<forall>d' \<in> set [?old]. \<exists>fs. demo_commit (''/usr/lib/modules/'' @ entry_name d') = Inr fs
                   \<and> (\<forall>f \<in> set fs. entry_name f \<noteq> ''vmlinuz'')"
    using o by simp
  have here: "demo_commit (''/usr/lib/modules/'' @ entry_name ?new) = Inr ?files"
    using n by simp
  have image: "\<exists>f \<in> set ?files. entry_name f = ''vmlinuz''" by simp
  have "get_kernel_version demo_commit = Inr (entry_name ?new)"
    using C9_kernel_version [where ls = demo_commit, OF a] split before here image by blast
  then have g: "get_kernel_version demo_commit = Inr ''5.4.77''" by simp
  from a o n g show ?thesis by blast
qed

section \<open>Results about the manifest\<close>

lemma split_words_append:
  "CHR '' '' \<notin> set n \<Longrightarrow> split_words w (n @ rest) = split_words (w @ n) rest"
  by (induction n arbitrary: w) auto

lemma split_words_join:
  "\<forall>n \<in> set names. n \<noteq> [] \<and> CHR '' '' \<notin> set n \<Longrightarrow>
     split_words [] (join_space names) = names"
proof (induction names rule: join_space.induct)
  case 1
  then show ?case by simp
next
  case (2 x)
  then show ?case using split_words_append [of x "[]" "[]"] by simp
next
  case (3 x y ys)
  have "split_words [] (x @ '' '' @ join_space (y # ys))
          = split_words x ('' '' @ join_space (y # ys))"
    using 3 split_words_append [of x "[]"] by simp
  also have "\<dots> = x # split_words [] (join_space (y # ys))"
    using 3 by simp
  finally show ?case using 3 by simp
qed

lemma newline_join_space:
  "\<forall>n \<in> set names. newline \<notin> set n \<Longrightarrow> newline \<notin> set (join_space names)"
  by (induction names rule: join_space.induct) (auto simp: newline_def)

lemma parse_content:
  assumes "\<forall>n \<in> set names. plain_name n"
  shows "parse_overlays_txt (overlays_txt_content names) = names"
proof -
  have nl: "newline \<notin> set (join_space names)"
    using assms newline_join_space by (simp add: plain_name_def)
  have "takeWhile (\<lambda>c. c \<noteq> newline) (join_space names @ [newline]) = join_space names"
    using nl by (simp add: takeWhile_append)
  then show ?thesis
    using assms split_words_join [of names]
    by (simp add: parse_overlays_txt_def overlays_txt_content_def plain_name_def)
qed

lemma split_words_plain:
  "CHR '' '' \<notin> set w \<Longrightarrow> newline \<notin> set w \<Longrightarrow> newline \<notin> set s \<Longrightarrow>
     n \<in> set (split_words w s) \<Longrightarrow> plain_name n"
proof (induction s arbitrary: w)
  case Nil
  then show ?case by (simp add: plain_name_def split: if_splits)
next
  case (Cons c cs)
  have nl: "newline \<notin> set cs" and cnl: "c \<noteq> newline"
    using Cons.prems(3) by auto
  show ?case
  proof (cases "c = CHR '' ''")
    case True
    show ?thesis
    proof (cases "w = []")
      case True
      with \<open>c = CHR '' ''\<close> Cons.prems(4) have "n \<in> set (split_words [] cs)" by simp
      then show ?thesis using Cons.IH [of "[]"] nl by simp
    next
      case False
      with \<open>c = CHR '' ''\<close> Cons.prems(4)
      have "n = w \<or> n \<in> set (split_words [] cs)" by simp
      then show ?thesis
      proof
        assume "n = w"
        then show ?thesis using False Cons.prems(1,2) by (simp add: plain_name_def)
      next
        assume "n \<in> set (split_words [] cs)"
        then show ?thesis using Cons.IH [of "[]"] nl by simp
      qed
    qed
  next
    case False
    with Cons.prems(4) have "n \<in> set (split_words (w @ [c]) cs)" by simp
    moreover have "CHR '' '' \<notin> set (w @ [c])" using False Cons.prems(1) by simp
    moreover have "newline \<notin> set (w @ [c])" using cnl Cons.prems(2) by simp
    ultimately show ?thesis using Cons.IH [of "w @ [c]"] nl by blast
  qed
qed

lemma parse_plain: "\<forall>n \<in> set (parse_overlays_txt txt). plain_name n"
proof -
  have "newline \<notin> set (takeWhile (\<lambda>c. c \<noteq> newline) (drop 13 txt))"
    by (auto dest: set_takeWhileD)
  then show ?thesis
    using split_words_plain [of "[]" "takeWhile (\<lambda>c. c \<noteq> newline) (drop 13 txt)"]
    by (auto simp add: parse_overlays_txt_def)
qed

lemma applied_plain: "\<forall>n \<in> set (get_applied_overlays_base_names t). plain_name n"
proof (cases "overlays_txt t")
  case None
  then show ?thesis by (simp add: get_applied_overlays_base_names_def)
next
  case (Some body)
  then show ?thesis using parse_plain [of body] by (simp add: get_applied_overlays_base_names_def)
qed

section \<open>Results about the \<^verbatim>\<open>dto\<close> commands\<close>

lemma named_temporary_file_simps:
  "fst (named_temporary_file t) = length (tmp_files t)"
  "snd (named_temporary_file t) = t\<lparr>tmp_files := tmp_files t @ [Some []]\<rparr>"
  by (simp_all add: named_temporary_file_def)

lemma write_new_tmp:
  "write_tmp (length (tmp_files t)) b (t\<lparr>tmp_files := tmp_files t @ [Some []]\<rparr>)
     = t\<lparr>tmp_files := tmp_files t @ [Some b]\<rparr>"
  by (simp add: write_tmp_def)

lemma test_apply_overlays_cases:
  assumes "test_apply_overlays env p d names tmp t = (r, t')"
  shows "(r \<noteq> None \<and> (t' = t \<or> t' = t\<lparr>tmp_files := tmp_files t @ [Some []]\<rparr>)) \<or>
     (r = None \<and> (\<exists>dtb paths merged. choose_dtb_path env t d = Inr dtb
        \<and> get_applied_overlay_paths t names = Inr paths
        \<and> modify_dtb_by_overlays env (t\<lparr>tmp_files := tmp_files t @ [Some []]\<rparr>) dtb
              (paths @ [TmpFile tmp]) = Some merged
        \<and> t' = t\<lparr>tmp_files := tmp_files t @ [Some merged]\<rparr>))"
  using assms
  unfolding test_apply_overlays_def named_temporary_file_simps write_new_tmp
  by (auto split: sum.splits option.splits)


lemma tmp_append_nil: "t\<lparr>tmp_files := tmp_files t @ []\<rparr> = (t::worktree)"
  by simp

lemma deploy_after_build:
  "deploy_overlay target (length (tmp_files t)) names
      (t\<lparr>tmp_files := tmp_files t @ Some dtob # rest\<rparr>)
   = t\<lparr>staged_overlays := (staged_overlays t)(target \<mapsto> dtob),
        tmp_files := tmp_files t @ None # rest,
        overlays_txt := Some (overlays_txt_content (names @ [target]))\<rparr>"
  by (simp add: deploy_overlay_def)

lemma dto_apply_cases:
  assumes "dto_apply env p d inc allow test t = (r, t')"
  shows "(\<exists>e. r = Inl e \<and> (\<exists>extra. t' = t\<lparr>tmp_files := tmp_files t @ extra\<rparr>)) \<or>
    (r = Inr () \<and> dto_guard t = None
      \<and> (allow \<or> dtob_target_basename p \<notin> set (get_applied_overlays_base_names t))
      \<and> (\<exists>dtob rest. build_dts env p inc = Some dtob
        \<and> t' = t\<lparr>staged_overlays := (staged_overlays t)(dtob_target_basename p \<mapsto> dtob),
                 tmp_files := tmp_files t @ None # rest,
                 overlays_txt := Some (overlays_txt_content
                    (remove1 (dtob_target_basename p) (get_applied_overlays_base_names t)
                       @ [dtob_target_basename p]))\<rparr>))"
proof (cases "dto_guard t")
  case (Some e)
  with assms have "r = Inl e" "t' = t" by (simp_all add: dto_apply_def)
  then show ?thesis using tmp_append_nil [of t] by metis
next
  case None
  let ?applied = "get_applied_overlays_base_names t"
  let ?target = "dtob_target_basename p"
  show ?thesis
  proof (cases "\<not> allow \<and> ?target \<in> set ?applied")
    case True
    with None assms have "\<exists>e. r = Inl e" "t' = t" by (auto simp add: dto_apply_def Let_def)
    then show ?thesis using tmp_append_nil [of t] by metis
  next
    case False
    have rm: "(if ?target \<in> set ?applied then remove1 ?target ?applied else ?applied)
                = remove1 ?target ?applied"
      by (simp add: remove1_idem)
    show ?thesis
    proof (cases "build_dts env p inc")
      case nb: None
      with None False assms have "\<exists>e. r = Inl e"
          "t' = t\<lparr>tmp_files := tmp_files t @ [Some []]\<rparr>"
        by (auto simp add: dto_apply_def Let_def named_temporary_file_simps)
      then show ?thesis by blast
    next
      case (Some dtob)
      let ?t2 = "t\<lparr>tmp_files := tmp_files t @ [Some dtob]\<rparr>"
      obtain r2 t3 where ta:
        "(if test then test_apply_overlays env p d (remove1 ?target ?applied)
                         (length (tmp_files t)) ?t2
          else (None, ?t2)) = (r2, t3)"
        by (cases "(if test then test_apply_overlays env p d (remove1 ?target ?applied)
                         (length (tmp_files t)) ?t2
          else (None, ?t2))") blast
      have eq: "dto_apply env p d inc allow test t =
         (case r2 of Some e \<Rightarrow> (Inl e, t3)
          | None \<Rightarrow> (Inr (), deploy_overlay ?target (length (tmp_files t))
                                (remove1 ?target ?applied) t3))"
        using None False Some ta
        unfolding dto_apply_def Let_def rm named_temporary_file_simps write_new_tmp
        by (auto split: option.splits)
      have t3: "(r2 \<noteq> None \<and> (\<exists>extra. t3 = t\<lparr>tmp_files := tmp_files t @ extra\<rparr>)) \<or>
                (r2 = None \<and> (\<exists>rest. t3 = t\<lparr>tmp_files := tmp_files t @ Some dtob # rest\<rparr>))"
      proof (cases test)
        case True
        with ta have "test_apply_overlays env p d (remove1 ?target ?applied)
                         (length (tmp_files t)) ?t2 = (r2, t3)" by simp
        from test_apply_overlays_cases [OF this]
        show ?thesis by (elim disjE conjE exE) (simp_all, metis+)
      next
        case False
        with ta have "r2 = None" "t3 = ?t2" by simp_all
        then show ?thesis by blast
      qed
      from t3 show ?thesis
      proof (elim disjE conjE exE)
        fix extra assume "r2 \<noteq> None" "t3 = t\<lparr>tmp_files := tmp_files t @ extra\<rparr>"
        with eq assms have "\<exists>e. r = Inl e" "t' = t\<lparr>tmp_files := tmp_files t @ extra\<rparr>"
          by auto
        then show ?thesis by blast
      next
        fix rest assume "r2 = None" "t3 = t\<lparr>tmp_files := tmp_files t @ Some dtob # rest\<rparr>"
        with eq assms have "r = Inr ()"
          "t' = deploy_overlay ?target (length (tmp_files t)) (remove1 ?target ?applied)
                  (t\<lparr>tmp_files := tmp_files t @ Some dtob # rest\<rparr>)"
          by auto
        then show ?thesis using None False Some unfolding deploy_after_build by blast
      qed
    qed
  qed
qed

lemma dto_apply_error_after_build:
  assumes "dto_apply env p d inc allow test t = (Inl e, t')"
    and "dto_guard t = None"
    and "allow \<or> dtob_target_basename p \<notin> set (get_applied_overlays_base_names t)"
    and "build_dts env p inc = Some dtob"
  shows "\<exists>rest. t' = t\<lparr>tmp_files := tmp_files t @ Some dtob # rest\<rparr>"
proof -
  let ?applied = "get_applied_overlays_base_names t"
  let ?target = "dtob_target_basename p"
  let ?t2 = "t\<lparr>tmp_files := tmp_files t @ [Some dtob]\<rparr>"
  have rm: "(if ?target \<in> set ?applied then remove1 ?target ?applied else ?applied)
                = remove1 ?target ?applied"
    by (simp add: remove1_idem)
  have nc: "\<not> (\<not> allow \<and> ?target \<in> set ?applied)" using assms(3) by blast
  obtain r2 t3 where ta:
    "(if test then test_apply_overlays env p d (remove1 ?target ?applied)
                     (length (tmp_files t)) ?t2
      else (None, ?t2)) = (r2, t3)"
    by (cases "(if test then test_apply_overlays env p d (remove1 ?target ?applied)
                     (length (tmp_files t)) ?t2
      else (None, ?t2))") blast
  have eq: "dto_apply env p d inc allow test t =
     (case r2 of Some e \<Rightarrow> (Inl e, t3)
      | None \<Rightarrow> (Inr (), deploy_overlay ?target (length (tmp_files t))
                            (remove1 ?target ?applied) t3))"
    using assms(2,4) nc ta
    unfolding dto_apply_def Let_def rm named_temporary_file_simps write_new_tmp
    by (auto split: option.splits)
  with assms(1) have r2: "r2 \<noteq> None" "t' = t3" by (auto split: option.splits)
  then have test by (metis ta prod.inject)
  with ta have "test_apply_overlays env p d (remove1 ?target ?applied)
                     (length (tmp_files t)) ?t2 = (r2, t3)" by simp
  from test_apply_overlays_cases [OF this] r2(1)
  have "t3 = ?t2 \<or> t3 = ?t2\<lparr>tmp_files := tmp_files ?t2 @ [Some []]\<rparr>" by blast
  then show ?thesis
  proof
    assume "t3 = ?t2"
    then show ?thesis using r2(2) by blast
  next
    assume "t3 = ?t2\<lparr>tmp_files := tmp_files ?t2 @ [Some []]\<rparr>"
    then have "t' = t\<lparr>tmp_files := tmp_files t @ Some dtob # [Some []]\<rparr>"
      using r2(2) by simp
    then show ?thesis by blast
  qed
qed

text \<open>
  C3. When the target basename of the overlay source is in the list of applied overlays,
  \<open>dto_apply\<close> without \<open>allow_reapply\<close> returns an error and the working tree it leaves is
  the one it was given: manifest, staged overlays, base image and temporary files are
  all unchanged. On a tree that passes the guard of the \<^verbatim>\<open>dto\<close> commands (images unpacked,
  not a WIC image) the error is the duplicate-overlay exit.
\<close>

theorem C3_duplicate_apply_rejected:
  assumes "dtob_target_basename dtos_path \<in> set (get_applied_overlays_base_names t)"
  shows "snd (dto_apply env dtos_path dtb_path include_dirs False test_apply t) = t
     \<and> (\<exists>e. fst (dto_apply env dtos_path dtb_path include_dirs False test_apply t) = Inl e)
     \<and> (dto_guard t = None \<longrightarrow>
          fst (dto_apply env dtos_path dtb_path include_dirs False test_apply t) =
            Inl (SysExit (''error: overlay '' @ dtob_target_basename dtos_path
                            @ '' is already applied.'')))"
  using assms by (cases "dto_guard t") (simp_all add: dto_apply_def Let_def)

lemma one_overlay_applied: "get_applied_overlays_base_names one_overlay_tree = [''a.dtbo'']"
  by (simp add: one_overlay_tree_def empty_tree_def get_applied_overlays_base_names_def
        parse_overlays_txt_def newline_def)

lemma target_a: "dtob_target_basename ''overlays/a.dts'' = ''a.dtbo''"
  by (simp add: dtob_target_basename_def splitext_def basename_def Let_def)

theorem C3_witness:
  "dtob_target_basename ''overlays/a.dts'' \<in> set (get_applied_overlays_base_names one_overlay_tree)
   \<and> dto_guard one_overlay_tree = None
   \<and> dto_apply demo_tools ''overlays/a.dts'' None [] False True one_overlay_tree =
       (Inl (SysExit ''error: overlay a.dtbo is already applied.''), one_overlay_tree)"
proof -
  have a: "dtob_target_basename ''overlays/a.dts''
             \<in> set (get_applied_overlays_base_names one_overlay_tree)"
    by (simp add: one_overlay_applied target_a)
  have g: "dto_guard one_overlay_tree = None"
    by (simp add: dto_guard_def one_overlay_tree_def empty_tree_def)
  show ?thesis
    using a g C3_duplicate_apply_rejected [OF a, of demo_tools None "[]" True]
    by (simp add: target_a prod_eq_iff)
qed

text \<open>
  C4 (as amended). When \<open>dto_apply\<close> fails, the manifest, the staged overlays directory
  and the base image are as before, and no temporary file that existed is touched. When
  the failure comes after the overlay has been compiled (the guard passed, no duplicate
  was refused and the compiler gave a blob), the compiled blob is still in its temporary
  file afterwards: the code does not remove it.
\<close>

theorem C4_failed_apply_frame:
  assumes "dto_apply env dtos_path dtb_path include_dirs allow_reapply test_apply t = (Inl e, t')"
  shows "overlays_txt t' = overlays_txt t
     \<and> staged_overlays t' = staged_overlays t
     \<and> base_overlays t' = base_overlays t
     \<and> take (length (tmp_files t)) (tmp_files t') = tmp_files t
     \<and> (\<forall>dtob. dto_guard t = None
           \<and> (allow_reapply
                \<or> dtob_target_basename dtos_path \<notin> set (get_applied_overlays_base_names t))
           \<and> build_dts env dtos_path include_dirs = Some dtob
          \<longrightarrow> tmp_files t' ! length (tmp_files t) = Some dtob)"
proof -
  from dto_apply_cases [OF assms]
  obtain extra where t': "t' = t\<lparr>tmp_files := tmp_files t @ extra\<rparr>" by auto
  have built: "tmp_files t' ! length (tmp_files t) = Some dtob"
    if "dto_guard t = None"
      "allow_reapply \<or> dtob_target_basename dtos_path \<notin> set (get_applied_overlays_base_names t)"
      "build_dts env dtos_path include_dirs = Some dtob" for dtob
  proof -
    from dto_apply_error_after_build [OF assms that]
    obtain rest where "t' = t\<lparr>tmp_files := tmp_files t @ Some dtob # rest\<rparr>" by blast
    then show ?thesis by simp
  qed
  from t' built show ?thesis by simp
qed

theorem C4_witness:
  "dto_apply strict_tools ''a.dts'' None [] False True empty_tree =
     (Inl (SysExit (''error: overlay '' @ squote @ ''a.dts'' @ squote @ '' is not applicable.'')),
      empty_tree\<lparr>tmp_files := [Some ''blob of a.dts'', Some []]\<rparr>)
   \<and> overlays_txt (empty_tree\<lparr>tmp_files := [Some ''blob of a.dts'', Some []]\<rparr>) = None"
proof -
  have r: "dto_apply strict_tools ''a.dts'' None [] False True empty_tree =
     (Inl (SysExit (''error: overlay '' @ squote @ ''a.dts'' @ squote @ '' is not applicable.'')),
      empty_tree\<lparr>tmp_files := [Some ''blob of a.dts'', Some []]\<rparr>)"
    by (simp add: dto_apply_def dto_guard_def empty_tree_def strict_tools_def demo_tools_def
          get_applied_overlays_base_names_def Let_def named_temporary_file_def write_tmp_def
          test_apply_overlays_def choose_dtb_path_def)
  from C4_failed_apply_frame [OF r] show ?thesis using r by (simp add: empty_tree_def)
qed

text \<open>
  C4 as stated fails: after a failed test application the temporary file still holds the
  compiled blob.
\<close>

theorem C4_counterexample:
  "fst (dto_apply strict_tools ''a.dts'' None [] False True empty_tree) =
     Inl (SysExit (''error: overlay '' @ squote @ ''a.dts'' @ squote @ '' is not applicable.''))
   \<and> build_dts strict_tools ''a.dts'' [] = Some ''blob of a.dts''
   \<and> tmp_files empty_tree = []
   \<and> tmp_files (snd (dto_apply strict_tools ''a.dts'' None [] False True empty_tree)) =
       [Some ''blob of a.dts'', Some []]"
  by (simp add: dto_apply_def dto_guard_def empty_tree_def strict_tools_def demo_tools_def
        get_applied_overlays_base_names_def Let_def named_temporary_file_def write_tmp_def
        test_apply_overlays_def choose_dtb_path_def)

lemma count_list_remove1:
  "x \<in> set xs \<Longrightarrow> Suc (count_list (remove1 x xs) x) = count_list xs x"
  by (induction xs) auto

lemma applied_after_write:
  assumes "\<forall>n \<in> set names. plain_name n"
  shows "get_applied_overlays_base_names (t\<lparr>overlays_txt := Some (overlays_txt_content names)\<rparr>)
           = names"
  using parse_content [OF assms] by (simp add: get_applied_overlays_base_names_def)

lemma dto_apply_success:
  assumes "dto_apply env p d inc allow test t = (Inr (), t')"
  shows "dto_guard t = None
     \<and> (allow \<or> dtob_target_basename p \<notin> set (get_applied_overlays_base_names t))
     \<and> (\<exists>dtob rest. build_dts env p inc = Some dtob
        \<and> t' = t\<lparr>staged_overlays := (staged_overlays t)(dtob_target_basename p \<mapsto> dtob),
                 tmp_files := tmp_files t @ None # rest,
                 overlays_txt := Some (overlays_txt_content
                    (remove1 (dtob_target_basename p) (get_applied_overlays_base_names t)
                       @ [dtob_target_basename p]))\<rparr>)"
  using dto_apply_cases [OF assms] by blast

lemma dto_apply_success_applied:
  assumes "dto_apply env p d inc allow test t = (Inr (), t')"
    and "plain_name (dtob_target_basename p)"
  shows "get_applied_overlays_base_names t' =
           remove1 (dtob_target_basename p) (get_applied_overlays_base_names t)
             @ [dtob_target_basename p]"
proof -
  let ?names = "remove1 (dtob_target_basename p) (get_applied_overlays_base_names t)
                  @ [dtob_target_basename p]"
  have plain: "\<forall>n \<in> set ?names. plain_name n"
    using applied_plain [of t] assms(2) set_remove1_subset [of "dtob_target_basename p"
      "get_applied_overlays_base_names t"] by auto
  from dto_apply_success [OF assms(1)]
  obtain dtob rest where
    "t' = t\<lparr>staged_overlays := (staged_overlays t)(dtob_target_basename p \<mapsto> dtob),
                 tmp_files := tmp_files t @ None # rest,
                 overlays_txt := Some (overlays_txt_content ?names)\<rparr>"
    by blast
  then have "overlays_txt t' = Some (overlays_txt_content ?names)" by simp
  then show ?thesis
    using parse_content [OF plain] by (simp add: get_applied_overlays_base_names_def)
qed

lemma empty_tree_guard: "dto_guard empty_tree = None"
  by (simp add: dto_guard_def empty_tree_def)

lemma one_overlay_guard: "dto_guard one_overlay_tree = None"
  by (simp add: dto_guard_def one_overlay_tree_def empty_tree_def)

lemma target_a_plain: "dtob_target_basename ''a.dts'' = ''a.dtbo''"
  by (simp add: dtob_target_basename_def splitext_def basename_def Let_def)







lemma applied_empty_directive:
  "get_applied_overlays_base_names (t\<lparr>overlays_txt := Some (''fdt_overlays='' @ [newline])\<rparr>) = []"
  by (simp add: get_applied_overlays_base_names_def parse_overlays_txt_def)

lemma dto_guard_cases:
  "unpack_executed t \<and> image_type t \<noteq> ''wic'' \<Longrightarrow> dto_guard t = None"
  "\<not> unpack_executed t \<Longrightarrow> dto_guard t = Some ImagesNotUnpacked"
  "unpack_executed t \<and> image_type t = ''wic'' \<Longrightarrow>
     dto_guard t = Some (InvalidDataError ''dto commands are not supported for WIC images. Aborting.'')"
  by (simp_all add: dto_guard_def)

text \<open>
  C7 (as amended). On a working tree whose images have been unpacked and whose image
  type is not WIC, whatever its manifest and its staged overlays are, \<open>dto_remove_all\<close>
  writes the directive \<^verbatim>\<open>fdt_overlays=\<close> with no basename, leaves no file in the staged
  overlays directory and changes nothing else; the list of applied overlays read back is
  empty, so the assertion that closes the function holds and the command succeeds. On any
  other tree the guard raises before anything is written or deleted: the command fails
  and the tree is as it was.
\<close>

theorem C7_remove_all:
  "(unpack_executed t \<and> image_type t \<noteq> ''wic'' \<longrightarrow>
      dto_remove_all t =
        (Inr (), t\<lparr>overlays_txt := Some (''fdt_overlays='' @ [newline]),
                   staged_overlays := Map.empty\<rparr>)
      \<and> overlays_txt (snd (dto_remove_all t)) = Some (''fdt_overlays='' @ [newline])
      \<and> staged_overlays (snd (dto_remove_all t)) = Map.empty
      \<and> get_applied_overlays_base_names (snd (dto_remove_all t)) = []
      \<and> fst (dto_remove_all t) =
          (if get_applied_overlays_base_names (snd (dto_remove_all t)) = [] then Inr ()
           else Inl (AssertionError
                  ''panic: all overlays removal failed; please contact the maintainers of this tool.'')))
   \<and> (\<not> unpack_executed t \<longrightarrow> dto_remove_all t = (Inl ImagesNotUnpacked, t))
   \<and> (unpack_executed t \<and> image_type t = ''wic'' \<longrightarrow>
        dto_remove_all t =
          (Inl (InvalidDataError ''dto commands are not supported for WIC images. Aborting.''), t))"
proof -
  let ?t2 = "t\<lparr>overlays_txt := Some (''fdt_overlays='' @ [newline]), staged_overlays := Map.empty\<rparr>"
  have ap: "get_applied_overlays_base_names ?t2 = []"
    by (simp add: get_applied_overlays_base_names_def parse_overlays_txt_def)
  have ok: "dto_remove_all t = (Inr (), ?t2)" if "unpack_executed t \<and> image_type t \<noteq> ''wic''"
    unfolding dto_remove_all_def Let_def dto_guard_cases(1) [OF that] using ap by simp
  have 1: "unpack_executed t \<and> image_type t \<noteq> ''wic'' \<longrightarrow>
      dto_remove_all t = (Inr (), ?t2)
      \<and> overlays_txt (snd (dto_remove_all t)) = Some (''fdt_overlays='' @ [newline])
      \<and> staged_overlays (snd (dto_remove_all t)) = Map.empty
      \<and> get_applied_overlays_base_names (snd (dto_remove_all t)) = []
      \<and> fst (dto_remove_all t) =
          (if get_applied_overlays_base_names (snd (dto_remove_all t)) = [] then Inr ()
           else Inl (AssertionError
                  ''panic: all overlays removal failed; please contact the maintainers of this tool.''))"
  proof
    assume g: "unpack_executed t \<and> image_type t \<noteq> ''wic''"
    show "dto_remove_all t = (Inr (), ?t2)
      \<and> overlays_txt (snd (dto_remove_all t)) = Some (''fdt_overlays='' @ [newline])
      \<and> staged_overlays (snd (dto_remove_all t)) = Map.empty
      \<and> get_applied_overlays_base_names (snd (dto_remove_all t)) = []
      \<and> fst (dto_remove_all t) =
          (if get_applied_overlays_base_names (snd (dto_remove_all t)) = [] then Inr ()
           else Inl (AssertionError
                  ''panic: all overlays removal failed; please contact the maintainers of this tool.''))"
      unfolding ok [OF g] using ap by simp
  qed
  have 2: "\<not> unpack_executed t \<longrightarrow> dto_remove_all t = (Inl ImagesNotUnpacked, t)"
    by (simp add: dto_remove_all_def dto_guard_def)
  have 3: "unpack_executed t \<and> image_type t = ''wic'' \<longrightarrow>
        dto_remove_all t =
          (Inl (InvalidDataError ''dto commands are not supported for WIC images. Aborting.''), t)"
    by (simp add: dto_remove_all_def dto_guard_def)
  from 1 2 3 show ?thesis by blast
qed

lemma one_overlay_flags: "unpack_executed one_overlay_tree \<and> image_type one_overlay_tree \<noteq> ''wic''"
  by (simp add: one_overlay_tree_def empty_tree_def)

lemma wic_flags: "unpack_executed wic_tree \<and> image_type wic_tree = ''wic''"
  by (simp add: wic_tree_def one_overlay_tree_def empty_tree_def)

theorem C7_witness:
  "unpack_executed one_overlay_tree
   \<and> image_type one_overlay_tree \<noteq> ''wic''
   \<and> staged_overlays one_overlay_tree ''a.dtbo'' = Some ''blob of a.dts''
   \<and> get_applied_overlays_base_names one_overlay_tree = [''a.dtbo'']
   \<and> fst (dto_remove_all one_overlay_tree) = Inr ()
   \<and> overlays_txt (snd (dto_remove_all one_overlay_tree)) = Some (''fdt_overlays='' @ [newline])
   \<and> staged_overlays (snd (dto_remove_all one_overlay_tree)) = Map.empty
   \<and> get_applied_overlays_base_names (snd (dto_remove_all one_overlay_tree)) = []"
proof -
  have s: "staged_overlays one_overlay_tree ''a.dtbo'' = Some ''blob of a.dts''"
    by (simp add: one_overlay_tree_def)
  note th = C7_remove_all [of one_overlay_tree]
  have 1: "fst (dto_remove_all one_overlay_tree) = Inr ()"
    using th one_overlay_flags by simp
  have 2: "overlays_txt (snd (dto_remove_all one_overlay_tree)) = Some (''fdt_overlays='' @ [newline])"
    using th one_overlay_flags by blast
  have 3: "staged_overlays (snd (dto_remove_all one_overlay_tree)) = Map.empty"
    using th one_overlay_flags by blast
  have 4: "get_applied_overlays_base_names (snd (dto_remove_all one_overlay_tree)) = []"
    using th one_overlay_flags by blast
  from one_overlay_flags s one_overlay_applied 1 2 3 4 show ?thesis by blast
qed

text \<open>
  C7 as stated fails on a WIC image: the command raises, the manifest still lists the
  overlay and its blob is still staged.
\<close>

theorem C7_counterexample:
  "image_type wic_tree = ''wic''
   \<and> dto_remove_all wic_tree =
       (Inl (InvalidDataError ''dto commands are not supported for WIC images. Aborting.''),
        wic_tree)
   \<and> get_applied_overlays_base_names (snd (dto_remove_all wic_tree)) = [''a.dtbo'']
   \<and> staged_overlays (snd (dto_remove_all wic_tree)) ''a.dtbo'' = Some ''blob of a.dts''"
proof -
  have r: "dto_remove_all wic_tree =
       (Inl (InvalidDataError ''dto commands are not supported for WIC images. Aborting.''),
        wic_tree)"
    using wic_flags by (simp add: dto_remove_all_def dto_guard_def)
  have ap: "get_applied_overlays_base_names wic_tree = [''a.dtbo'']"
    using one_overlay_applied
    by (simp add: wic_tree_def get_applied_overlays_base_names_def)
  have st: "staged_overlays wic_tree ''a.dtbo'' = Some ''blob of a.dts''"
    by (simp add: wic_tree_def one_overlay_tree_def)
  from wic_flags r ap st show ?thesis by simp
qed

lemma dto_remove_single_present:
  assumes "dto_guard t = None"
    and "b \<in> set (get_applied_overlays_base_names t)"
  shows "snd (dto_remove_single b req t) =
           t\<lparr>overlays_txt := Some (overlays_txt_content
                  (remove1 b (get_applied_overlays_base_names t))),
             staged_overlays := (staged_overlays t)(b := None)\<rparr>"
    and "fst (dto_remove_single b req t) =
           (if staged_overlays t b = None \<and> base_overlays t b = None
            then Inl (OverlayNotFound b) else Inr True)"
    and "get_applied_overlays_base_names (snd (dto_remove_single b req t)) =
           remove1 b (get_applied_overlays_base_names t)"
proof -
  let ?applied = "get_applied_overlays_base_names t"
  let ?t1 = "t\<lparr>overlays_txt := Some (overlays_txt_content (remove1 b ?applied))\<rparr>"
  have eq: "dto_remove_single b req t =
     (case find_path_to_overlay ?t1 b of
        Inl e \<Rightarrow> (Inl e, ?t1)
      | Inr dtob_path \<Rightarrow>
          (Inr True,
           if startswith_dt_changes_dir dtob_path then os_remove dtob_path ?t1 else ?t1))"
    using assms by (simp add: dto_remove_single_def Let_def)
  have both: "snd (dto_remove_single b req t) =
           ?t1\<lparr>staged_overlays := (staged_overlays t)(b := None)\<rparr>
     \<and> fst (dto_remove_single b req t) =
           (if staged_overlays t b = None \<and> base_overlays t b = None
            then Inl (OverlayNotFound b) else Inr True)"
  proof (cases "staged_overlays t b = None")
    case False
    then show ?thesis unfolding eq by (simp add: find_path_to_overlay_def)
  next
    case True
    then have "(staged_overlays t)(b := None) = staged_overlays t"
      by (simp add: fun_upd_idem)
    then show ?thesis unfolding eq using True by (simp add: find_path_to_overlay_def)
  qed
  from both show "snd (dto_remove_single b req t) =
           t\<lparr>overlays_txt := Some (overlays_txt_content (remove1 b ?applied)),
             staged_overlays := (staged_overlays t)(b := None)\<rparr>"
    by simp
  from both show "fst (dto_remove_single b req t) =
           (if staged_overlays t b = None \<and> base_overlays t b = None
            then Inl (OverlayNotFound b) else Inr True)"
    by simp
  have plain: "\<forall>n \<in> set (remove1 b ?applied). plain_name n"
    using applied_plain [of t] set_remove1_subset [of b ?applied] by blast
  have "overlays_txt (snd (dto_remove_single b req t))
          = Some (overlays_txt_content (remove1 b ?applied))"
    using both by simp
  then show "get_applied_overlays_base_names (snd (dto_remove_single b req t)) =
           remove1 b ?applied"
    using parse_content [OF plain] by (simp add: get_applied_overlays_base_names_def)
qed

lemma base_overlay_guard: "dto_guard base_overlay_tree = None"
  by (simp add: dto_guard_def base_overlay_tree_def empty_tree_def)

lemma base_overlay_applied: "get_applied_overlays_base_names base_overlay_tree = [''b.dtbo'']"
  by (simp add: base_overlay_tree_def empty_tree_def get_applied_overlays_base_names_def
        parse_overlays_txt_def newline_def)

lemma listed_after_remove1:
  "b \<in> set xs \<Longrightarrow> b \<in> set (remove1 b xs) \<longleftrightarrow> 1 < count_list xs b"
proof -
  assume a: "b \<in> set xs"
  have "b \<in> set (remove1 b xs) \<longleftrightarrow> 0 < count_list (remove1 b xs) b"
    using count_list_0_iff [of "remove1 b xs" b] by auto
  also have "\<dots> \<longleftrightarrow> 1 < count_list xs b"
    using count_list_remove1 [OF a] by linarith
  finally show ?thesis .
qed

text \<open>
  C8 (as amended). On a working tree whose images have been unpacked and whose image
  type is not WIC, \<open>dto_remove_single\<close> of a basename that is not in the list of applied
  overlays exits with the error that the overlay is not applied when presence is
  required, and returns \<open>False\<close> without changing anything otherwise. When the basename is
  in the list, the manifest is rewritten with the list from which its first occurrence
  is removed: the basename is no longer listed, unless the list held it more than once.
  The file of that name in the staged overlays directory is deleted if there is one, no
  other staged file is touched, and the overlays of the base image are left as they are.
  The command then returns \<open>True\<close>, unless the blob is in neither directory. On any
  other tree the guard raises and nothing is changed.
\<close>

theorem C8_remove_single:
  "(unpack_executed t \<and> image_type t \<noteq> ''wic'' \<longrightarrow>
      (dtob_basename \<notin> set (get_applied_overlays_base_names t) \<longrightarrow>
         dto_remove_single dtob_basename True t =
           (Inl (SysExit (''error: overlay '' @ squote @ dtob_basename @ squote
                            @ '' is already not applied.'')), t)
         \<and> dto_remove_single dtob_basename False t = (Inr False, t))
      \<and> (dtob_basename \<in> set (get_applied_overlays_base_names t) \<longrightarrow>
         snd (dto_remove_single dtob_basename presence_required t) =
           t\<lparr>overlays_txt := Some (overlays_txt_content
                  (remove1 dtob_basename (get_applied_overlays_base_names t))),
             staged_overlays := (staged_overlays t)(dtob_basename := None)\<rparr>
         \<and> get_applied_overlays_base_names
              (snd (dto_remove_single dtob_basename presence_required t))
            = remove1 dtob_basename (get_applied_overlays_base_names t)
         \<and> (dtob_basename \<in> set (get_applied_overlays_base_names
                                    (snd (dto_remove_single dtob_basename presence_required t)))
              \<longleftrightarrow> 1 < count_list (get_applied_overlays_base_names t) dtob_basename)
         \<and> base_overlays (snd (dto_remove_single dtob_basename presence_required t))
            = base_overlays t
         \<and> fst (dto_remove_single dtob_basename presence_required t) =
             (if staged_overlays t dtob_basename = None \<and> base_overlays t dtob_basename = None
              then Inl (OverlayNotFound dtob_basename) else Inr True)))
   \<and> (\<not> unpack_executed t \<longrightarrow>
        dto_remove_single dtob_basename presence_required t = (Inl ImagesNotUnpacked, t))
   \<and> (unpack_executed t \<and> image_type t = ''wic'' \<longrightarrow>
        dto_remove_single dtob_basename presence_required t =
          (Inl (InvalidDataError ''dto commands are not supported for WIC images. Aborting.''), t))"
proof -
  let ?applied = "get_applied_overlays_base_names t"
  let ?t' = "snd (dto_remove_single dtob_basename presence_required t)"
  have absent: "dto_remove_single dtob_basename True t =
           (Inl (SysExit (''error: overlay '' @ squote @ dtob_basename @ squote
                            @ '' is already not applied.'')), t)
         \<and> dto_remove_single dtob_basename False t = (Inr False, t)"
    if "unpack_executed t \<and> image_type t \<noteq> ''wic''" "dtob_basename \<notin> set ?applied"
    using that(2) by (simp add: dto_remove_single_def dto_guard_cases(1) [OF that(1)])
  have present: "?t' = t\<lparr>overlays_txt := Some (overlays_txt_content (remove1 dtob_basename ?applied)),
             staged_overlays := (staged_overlays t)(dtob_basename := None)\<rparr>
         \<and> get_applied_overlays_base_names ?t' = remove1 dtob_basename ?applied
         \<and> (dtob_basename \<in> set (get_applied_overlays_base_names ?t')
              \<longleftrightarrow> 1 < count_list ?applied dtob_basename)
         \<and> base_overlays ?t' = base_overlays t
         \<and> fst (dto_remove_single dtob_basename presence_required t) =
             (if staged_overlays t dtob_basename = None \<and> base_overlays t dtob_basename = None
              then Inl (OverlayNotFound dtob_basename) else Inr True)"
    if g: "unpack_executed t \<and> image_type t \<noteq> ''wic''" and inl: "dtob_basename \<in> set ?applied"
  proof -
    note p = dto_remove_single_present [OF dto_guard_cases(1) [OF g] inl, of presence_required]
    have b: "base_overlays ?t' = base_overlays t" unfolding p(1) by simp
    have l: "dtob_basename \<in> set (get_applied_overlays_base_names ?t')
              \<longleftrightarrow> 1 < count_list ?applied dtob_basename"
      unfolding p(3) by (rule listed_after_remove1 [OF inl])
    from p b l show ?thesis by blast
  qed
  have 2: "\<not> unpack_executed t \<longrightarrow>
        dto_remove_single dtob_basename presence_required t = (Inl ImagesNotUnpacked, t)"
    by (simp add: dto_remove_single_def dto_guard_def)
  have 3: "unpack_executed t \<and> image_type t = ''wic'' \<longrightarrow>
        dto_remove_single dtob_basename presence_required t =
          (Inl (InvalidDataError ''dto commands are not supported for WIC images. Aborting.''), t)"
    by (simp add: dto_remove_single_def dto_guard_def)
  from absent present 2 3 show ?thesis by blast
qed

lemma base_overlay_flags:
  "unpack_executed base_overlay_tree \<and> image_type base_overlay_tree \<noteq> ''wic''"
  by (simp add: base_overlay_tree_def empty_tree_def)

theorem C8_witness:
  "unpack_executed base_overlay_tree \<and> image_type base_overlay_tree \<noteq> ''wic''
   \<and> get_applied_overlays_base_names base_overlay_tree = [''b.dtbo'']
   \<and> base_overlays base_overlay_tree ''b.dtbo'' = Some ''blob of the image''
   \<and> fst (dto_remove_single ''b.dtbo'' True base_overlay_tree) = Inr True
   \<and> get_applied_overlays_base_names (snd (dto_remove_single ''b.dtbo'' True base_overlay_tree)) = []
   \<and> base_overlays (snd (dto_remove_single ''b.dtbo'' True base_overlay_tree)) ''b.dtbo''
       = Some ''blob of the image''
   \<and> unpack_executed one_overlay_tree \<and> image_type one_overlay_tree \<noteq> ''wic''
   \<and> get_applied_overlays_base_names one_overlay_tree = [''a.dtbo'']
   \<and> staged_overlays one_overlay_tree ''a.dtbo'' = Some ''blob of a.dts''
   \<and> fst (dto_remove_single ''a.dtbo'' True one_overlay_tree) = Inr True
   \<and> ''a.dtbo'' \<notin> set (get_applied_overlays_base_names
                          (snd (dto_remove_single ''a.dtbo'' True one_overlay_tree)))
   \<and> staged_overlays (snd (dto_remove_single ''a.dtbo'' True one_overlay_tree)) ''a.dtbo'' = None
   \<and> fst (dto_remove_single ''x.dtbo'' True one_overlay_tree) =
       Inl (SysExit (''error: overlay '' @ squote @ ''x.dtbo'' @ squote @ '' is already not applied.''))
   \<and> dto_remove_single ''x.dtbo'' False one_overlay_tree = (Inr False, one_overlay_tree)"
proof -
  have b: "''b.dtbo'' \<in> set (get_applied_overlays_base_names base_overlay_tree)"
    by (simp add: base_overlay_applied)
  have a: "''a.dtbo'' \<in> set (get_applied_overlays_base_names one_overlay_tree)"
    by (simp add: one_overlay_applied)
  have x: "''x.dtbo'' \<notin> set (get_applied_overlays_base_names one_overlay_tree)"
    by (simp add: one_overlay_applied)
  have sb: "staged_overlays base_overlay_tree ''b.dtbo'' = None"
       "base_overlays base_overlay_tree ''b.dtbo'' = Some ''blob of the image''"
    by (simp_all add: base_overlay_tree_def empty_tree_def)
  have sa: "staged_overlays one_overlay_tree ''a.dtbo'' = Some ''blob of a.dts''"
    by (simp add: one_overlay_tree_def empty_tree_def)
  have thb: "get_applied_overlays_base_names (snd (dto_remove_single ''b.dtbo'' True base_overlay_tree))
              = remove1 ''b.dtbo'' (get_applied_overlays_base_names base_overlay_tree)
          \<and> base_overlays (snd (dto_remove_single ''b.dtbo'' True base_overlay_tree))
              = base_overlays base_overlay_tree
          \<and> fst (dto_remove_single ''b.dtbo'' True base_overlay_tree) =
              (if staged_overlays base_overlay_tree ''b.dtbo'' = None
                    \<and> base_overlays base_overlay_tree ''b.dtbo'' = None
               then Inl (OverlayNotFound ''b.dtbo'') else Inr True)"
    using C8_remove_single [of base_overlay_tree "''b.dtbo''" True] base_overlay_flags b by blast
  have 1: "fst (dto_remove_single ''b.dtbo'' True base_overlay_tree) = Inr True
     \<and> get_applied_overlays_base_names (snd (dto_remove_single ''b.dtbo'' True base_overlay_tree)) = []
     \<and> base_overlays (snd (dto_remove_single ''b.dtbo'' True base_overlay_tree)) ''b.dtbo''
       = Some ''blob of the image''"
    using thb sb by (simp add: base_overlay_applied)
  have tha: "snd (dto_remove_single ''a.dtbo'' True one_overlay_tree) =
              one_overlay_tree\<lparr>overlays_txt := Some (overlays_txt_content
                    (remove1 ''a.dtbo'' (get_applied_overlays_base_names one_overlay_tree))),
                staged_overlays := (staged_overlays one_overlay_tree)(''a.dtbo'' := None)\<rparr>"
      and tha2: "fst (dto_remove_single ''a.dtbo'' True one_overlay_tree) =
              (if staged_overlays one_overlay_tree ''a.dtbo'' = None
                    \<and> base_overlays one_overlay_tree ''a.dtbo'' = None
               then Inl (OverlayNotFound ''a.dtbo'') else Inr True)"
      and tha3: "''a.dtbo'' \<in> set (get_applied_overlays_base_names
                                    (snd (dto_remove_single ''a.dtbo'' True one_overlay_tree)))
              \<longleftrightarrow> 1 < count_list (get_applied_overlays_base_names one_overlay_tree) ''a.dtbo''"
    using C8_remove_single [of one_overlay_tree "''a.dtbo''" True] one_overlay_flags a by blast+
  have 2: "fst (dto_remove_single ''a.dtbo'' True one_overlay_tree) = Inr True
     \<and> staged_overlays (snd (dto_remove_single ''a.dtbo'' True one_overlay_tree)) ''a.dtbo'' = None"
    unfolding tha tha2 using sa by simp
  have nl: "''a.dtbo'' \<notin> set (get_applied_overlays_base_names
                          (snd (dto_remove_single ''a.dtbo'' True one_overlay_tree)))"
    unfolding tha3 one_overlay_applied by simp
  have 3: "fst (dto_remove_single ''x.dtbo'' True one_overlay_tree) =
       Inl (SysExit (''error: overlay '' @ squote @ ''x.dtbo'' @ squote @ '' is already not applied.''))
     \<and> dto_remove_single ''x.dtbo'' False one_overlay_tree = (Inr False, one_overlay_tree)"
    using C8_remove_single [of one_overlay_tree "''x.dtbo''" True] one_overlay_flags x
    by simp
  from 1 2 nl 3 base_overlay_flags one_overlay_flags base_overlay_applied one_overlay_applied sb(2) sa
  show ?thesis by blast
qed

lemma first_apply:
  "run_command demo_tools (Apply ''a.dts'' None [] False False) empty_tree =
     empty_tree\<lparr>staged_overlays := [''a.dtbo'' \<mapsto> ''blob of a.dts''],
                tmp_files := [None],
                overlays_txt := Some (''fdt_overlays=a.dtbo'' @ [newline])\<rparr>"
  unfolding run_command.simps dto_apply_def empty_tree_guard
  by (simp add: demo_tools_def Let_def named_temporary_file_def write_tmp_def
        deploy_overlay_def overlays_txt_content_def empty_tree_def
        get_applied_overlays_base_names_def target_a_plain)

lemma target_spaced: "dtob_target_basename ''a.dtbo x.dts'' = ''a.dtbo x.dtbo''"
  by (simp add: dtob_target_basename_def splitext_def basename_def Let_def)

lemma dup_tree_value:
  "dup_tree =
     empty_tree\<lparr>staged_overlays := [''a.dtbo'' \<mapsto> ''blob of a.dts'',
                                     ''a.dtbo x.dtbo'' \<mapsto> ''blob of a.dtbo x.dts''],
                tmp_files := [None, None],
                overlays_txt := Some (''fdt_overlays=a.dtbo a.dtbo x.dtbo'' @ [newline])\<rparr>"
proof -
  let ?t1 = "empty_tree\<lparr>staged_overlays := [''a.dtbo'' \<mapsto> ''blob of a.dts''],
                tmp_files := [None],
                overlays_txt := Some (''fdt_overlays=a.dtbo'' @ [newline])\<rparr>"
  have g: "dto_guard ?t1 = None" by (simp add: dto_guard_def empty_tree_def)
  have ap: "get_applied_overlays_base_names ?t1 = [''a.dtbo'']"
    by (simp add: get_applied_overlays_base_names_def parse_overlays_txt_def newline_def)
  have "run_command demo_tools (Apply ''a.dtbo x.dts'' None [] False False) ?t1 =
     empty_tree\<lparr>staged_overlays := [''a.dtbo'' \<mapsto> ''blob of a.dts'',
                                     ''a.dtbo x.dtbo'' \<mapsto> ''blob of a.dtbo x.dts''],
                tmp_files := [None, None],
                overlays_txt := Some (''fdt_overlays=a.dtbo a.dtbo x.dtbo'' @ [newline])\<rparr>"
    unfolding run_command.simps dto_apply_def g ap target_spaced
    by (simp add: demo_tools_def Let_def named_temporary_file_def write_tmp_def
        deploy_overlay_def overlays_txt_content_def empty_tree_def)
  then show ?thesis unfolding dup_tree_def first_apply .
qed

lemma dup_tree_applied:
  "get_applied_overlays_base_names dup_tree = [''a.dtbo'', ''a.dtbo'', ''x.dtbo'']"
  unfolding dup_tree_value
  by (simp add: get_applied_overlays_base_names_def parse_overlays_txt_def newline_def)

lemma dup_tree_flags: "unpack_executed dup_tree \<and> image_type dup_tree \<noteq> ''wic''"
  unfolding dup_tree_value by (simp add: empty_tree_def)

text \<open>
  C8 as stated fails in two places. A manifest can list a basename twice: applying
  \<^verbatim>\<open>a.dts\<close> and then a source named \<^verbatim>\<open>a.dtbo x.dts\<close> on a fresh tree gives one; removing
  \<^verbatim>\<open>a.dtbo\<close> there succeeds and deletes the staged blob, and the manifest still lists
  \<^verbatim>\<open>a.dtbo\<close>. And on a WIC image the removal of a basename that is not applied fails
  even when presence is not required.
\<close>

theorem C8_counterexample:
  "fresh empty_tree
   \<and> dup_tree =
       run_command demo_tools (Apply ''a.dtbo x.dts'' None [] False False)
         (run_command demo_tools (Apply ''a.dts'' None [] False False) empty_tree)
   \<and> get_applied_overlays_base_names dup_tree = [''a.dtbo'', ''a.dtbo'', ''x.dtbo'']
   \<and> staged_overlays dup_tree ''a.dtbo'' = Some ''blob of a.dts''
   \<and> fst (dto_remove_single ''a.dtbo'' True dup_tree) = Inr True
   \<and> get_applied_overlays_base_names (snd (dto_remove_single ''a.dtbo'' True dup_tree))
       = [''a.dtbo'', ''x.dtbo'']
   \<and> staged_overlays (snd (dto_remove_single ''a.dtbo'' True dup_tree)) ''a.dtbo'' = None
   \<and> ''x.dtbo'' \<notin> set (get_applied_overlays_base_names wic_tree)
   \<and> dto_remove_single ''x.dtbo'' False wic_tree =
       (Inl (InvalidDataError ''dto commands are not supported for WIC images. Aborting.''),
        wic_tree)"
proof -
  have f: "fresh empty_tree" by (simp add: fresh_def empty_tree_def)
  have inl: "''a.dtbo'' \<in> set (get_applied_overlays_base_names dup_tree)"
    by (simp add: dup_tree_applied)
  note p = dto_remove_single_present [OF dto_guard_cases(1) [OF dup_tree_flags] inl, of True]
  have st: "staged_overlays dup_tree ''a.dtbo'' = Some ''blob of a.dts''"
    unfolding dup_tree_value by simp
  have 1: "fst (dto_remove_single ''a.dtbo'' True dup_tree) = Inr True"
    unfolding p(2) using st by simp
  have 2: "get_applied_overlays_base_names (snd (dto_remove_single ''a.dtbo'' True dup_tree))
       = [''a.dtbo'', ''x.dtbo'']"
    unfolding p(3) dup_tree_applied by simp
  have 3: "staged_overlays (snd (dto_remove_single ''a.dtbo'' True dup_tree)) ''a.dtbo'' = None"
    unfolding p(1) by simp
  have w1: "''x.dtbo'' \<notin> set (get_applied_overlays_base_names wic_tree)"
    using one_overlay_applied by (simp add: wic_tree_def get_applied_overlays_base_names_def)
  have w2: "dto_remove_single ''x.dtbo'' False wic_tree =
       (Inl (InvalidDataError ''dto commands are not supported for WIC images. Aborting.''),
        wic_tree)"
    using wic_flags by (simp add: dto_remove_single_def dto_guard_def)
  from f dup_tree_def dup_tree_applied st 1 2 3 w1 w2 show ?thesis by blast
qed

lemma fresh_consistent: "fresh t \<Longrightarrow> consistent t"
  by (simp add: fresh_def consistent_def staged_files_def get_applied_overlays_base_names_def)

lemma applied_tmp_files [simp]:
  "get_applied_overlays_base_names (t\<lparr>tmp_files := x\<rparr>) = get_applied_overlays_base_names t"
  by (simp add: get_applied_overlays_base_names_def)

lemma dto_apply_consistent:
  assumes "consistent t" and "plain_name (dtob_target_basename p)"
  shows "consistent (snd (dto_apply env p d inc allow test t))"
proof -
  obtain r t' where res: "dto_apply env p d inc allow test t = (r, t')"
    by (cases "dto_apply env p d inc allow test t") blast
  let ?target = "dtob_target_basename p"
  let ?applied = "get_applied_overlays_base_names t"
  show ?thesis
  proof (cases r)
    case (Inl e)
    with dto_apply_cases [OF res]
    obtain extra where "t' = t\<lparr>tmp_files := tmp_files t @ extra\<rparr>" by auto
    then show ?thesis using assms(1) res by (simp add: consistent_def staged_files_def)
  next
    case (Inr u)
    with res have res': "dto_apply env p d inc allow test t = (Inr (), t')" by simp
    from dto_apply_success [OF res']
    obtain dtob rest where
      t': "t' = t\<lparr>staged_overlays := (staged_overlays t)(?target \<mapsto> dtob),
                 tmp_files := tmp_files t @ None # rest,
                 overlays_txt := Some (overlays_txt_content (remove1 ?target ?applied @ [?target]))\<rparr>"
      by blast
    have ap: "get_applied_overlays_base_names t' = remove1 ?target ?applied @ [?target]"
      by (rule dto_apply_success_applied [OF res' assms(2)])
    have d: "distinct ?applied" and s: "set ?applied = dom (staged_overlays t)"
      using assms(1) by (simp_all add: consistent_def staged_files_def)
    have d': "distinct (remove1 ?target ?applied @ [?target])" using d by simp
    have s': "set (remove1 ?target ?applied @ [?target]) = insert ?target (dom (staged_overlays t))"
      using d s by auto
    have "staged_files t' = insert ?target (dom (staged_overlays t))"
      unfolding t' by (simp add: staged_files_def)
    then show ?thesis using ap d' s' res by (simp add: consistent_def)
  qed
qed

lemma dto_remove_single_consistent:
  assumes "consistent t"
  shows "consistent (snd (dto_remove_single b req t))"
proof (cases "dto_guard t")
  case (Some e)
  then show ?thesis using assms by (simp add: dto_remove_single_def)
next
  case None
  let ?applied = "get_applied_overlays_base_names t"
  show ?thesis
  proof (cases "b \<in> set ?applied")
    case False
    then show ?thesis using assms None by (simp add: dto_remove_single_def)
  next
    case True
    let ?t' = "snd (dto_remove_single b req t)"
    have st: "?t' = t\<lparr>overlays_txt := Some (overlays_txt_content (remove1 b ?applied)),
                staged_overlays := (staged_overlays t)(b := None)\<rparr>"
      and ap: "get_applied_overlays_base_names ?t' = remove1 b ?applied"
      using dto_remove_single_present(1,3) [OF None True, of req] by blast+
    have d: "distinct ?applied" and s: "set ?applied = dom (staged_overlays t)"
      using assms by (simp_all add: consistent_def staged_files_def)
    have "staged_files ?t' = dom (staged_overlays t) - {b}"
      unfolding st by (simp add: staged_files_def)
    moreover have "set (remove1 b ?applied) = dom (staged_overlays t) - {b}"
      using d s by simp
    ultimately show ?thesis using ap d by (simp add: consistent_def)
  qed
qed

lemma dto_remove_all_consistent:
  assumes "consistent t"
  shows "consistent (snd (dto_remove_all t))"
proof (cases "dto_guard t")
  case (Some e)
  then show ?thesis using assms by (simp add: dto_remove_all_def)
next
  case None
  let ?t2 = "t\<lparr>overlays_txt := Some (''fdt_overlays='' @ [newline]), staged_overlays := Map.empty\<rparr>"
  have ap: "get_applied_overlays_base_names ?t2 = []"
    by (simp add: get_applied_overlays_base_names_def parse_overlays_txt_def)
  have "dto_remove_all t = (Inr (), ?t2)"
    unfolding dto_remove_all_def Let_def None using ap by simp
  then show ?thesis
    using ap by (simp add: consistent_def staged_files_def)
qed

lemma run_command_consistent:
  "consistent t \<Longrightarrow> command_plain c \<Longrightarrow> consistent (run_command env c t)"
  by (cases c)
     (simp_all add: dto_apply_consistent dto_remove_single_consistent dto_remove_all_consistent)

lemma states_after_consistent:
  "consistent t \<Longrightarrow> \<forall>c \<in> set cmds. command_plain c \<Longrightarrow>
     \<forall>t' \<in> set (states_after env t cmds). consistent t'"
proof (induction cmds arbitrary: t)
  case Nil
  then show ?case by simp
next
  case (Cons c cmds)
  have step: "consistent (run_command env c t)"
    using Cons.prems by (simp add: run_command_consistent)
  have "\<forall>t' \<in> set (states_after env (run_command env c t) cmds). consistent t'"
    using Cons.IH [OF step] Cons.prems(2) by simp
  with step show ?case by simp
qed


text \<open>
  C1 (as amended). Start from a fresh working tree and run any sequence of \<open>dto_apply\<close>,
  \<open>dto_remove_single\<close> and \<open>dto_remove_all\<close> in which every applied source has a target
  basename without a space or a line break. After each command, whether it succeeded or
  failed, the basenames listed in the manifest are exactly the files of the staged
  overlays directory.
\<close>

theorem C1_manifest_matches_staged:
  assumes "fresh t"
    and "\<forall>c \<in> set cmds. command_plain c"
  shows "\<forall>t' \<in> set (states_after env t cmds).
           set (get_applied_overlays_base_names t') = staged_files t'"
  using states_after_consistent [OF fresh_consistent [OF assms(1)] assms(2), of env]
  by (simp add: consistent_def)

lemma empty_tree_fresh: "fresh empty_tree"
  by (simp add: fresh_def empty_tree_def)

lemma target_b_plain: "dtob_target_basename ''b.dts'' = ''b.dtbo''"
  by (simp add: dtob_target_basename_def splitext_def basename_def Let_def)

theorem C1_witness:
  "fresh empty_tree
   \<and> command_plain (Apply ''a.dts'' None [] False True)
   \<and> command_plain (Apply ''b.dts'' None [] False False)
   \<and> command_plain (RemoveSingle ''a.dtbo'' True)
   \<and> set (get_applied_overlays_base_names
        (run_command demo_tools (RemoveSingle ''a.dtbo'' True)
          (run_command demo_tools (Apply ''b.dts'' None [] False False)
            (run_command demo_tools (Apply ''a.dts'' None [] False True) empty_tree))))
     = staged_files
        (run_command demo_tools (RemoveSingle ''a.dtbo'' True)
          (run_command demo_tools (Apply ''b.dts'' None [] False False)
            (run_command demo_tools (Apply ''a.dts'' None [] False True) empty_tree)))"
proof -
  let ?cmds = "[Apply ''a.dts'' None [] False True, Apply ''b.dts'' None [] False False,
                RemoveSingle ''a.dtbo'' True]"
  have p1: "command_plain (Apply ''a.dts'' None [] False True)"
    by (simp add: target_a_plain plain_name_def newline_def)
  have p2: "command_plain (Apply ''b.dts'' None [] False False)"
    by (simp add: target_b_plain plain_name_def newline_def)
  have p3: "command_plain (RemoveSingle ''a.dtbo'' True)" by simp
  have all: "\<forall>c \<in> set ?cmds. command_plain c" using p1 p2 p3 by simp
  have mem: "run_command demo_tools (RemoveSingle ''a.dtbo'' True)
          (run_command demo_tools (Apply ''b.dts'' None [] False False)
            (run_command demo_tools (Apply ''a.dts'' None [] False True) empty_tree))
        \<in> set (states_after demo_tools empty_tree ?cmds)"
    unfolding states_after.simps by simp
  from C1_manifest_matches_staged [OF empty_tree_fresh all, of demo_tools] mem
  have "set (get_applied_overlays_base_names
        (run_command demo_tools (RemoveSingle ''a.dtbo'' True)
          (run_command demo_tools (Apply ''b.dts'' None [] False False)
            (run_command demo_tools (Apply ''a.dts'' None [] False True) empty_tree))))
     = staged_files
        (run_command demo_tools (RemoveSingle ''a.dtbo'' True)
          (run_command demo_tools (Apply ''b.dts'' None [] False False)
            (run_command demo_tools (Apply ''a.dts'' None [] False True) empty_tree)))"
    by blast
  with empty_tree_fresh p1 p2 p3 show ?thesis by blast
qed

lemma spaced_apply:
  "run_command demo_tools (Apply ''my overlay.dts'' None [] False False) empty_tree =
     empty_tree\<lparr>staged_overlays := [''my overlay.dtbo'' \<mapsto> ''blob of my overlay.dts''],
                tmp_files := [None],
                overlays_txt := Some (''fdt_overlays=my overlay.dtbo'' @ [newline])\<rparr>"
  unfolding run_command.simps dto_apply_def empty_tree_guard
  by (simp add: demo_tools_def Let_def named_temporary_file_def write_tmp_def
        deploy_overlay_def overlays_txt_content_def empty_tree_def
        get_applied_overlays_base_names_def dtob_target_basename_def splitext_def
        basename_def)

text \<open>
  C1 as stated fails for a source whose name has a space: the manifest then lists two
  basenames, neither of which is the file written to the staged overlays directory.
\<close>

theorem C1_counterexample:
  "fresh empty_tree
   \<and> get_applied_overlays_base_names
        (run_command demo_tools (Apply ''my overlay.dts'' None [] False False) empty_tree)
       = [''my'', ''overlay.dtbo'']
   \<and> staged_files
        (run_command demo_tools (Apply ''my overlay.dts'' None [] False False) empty_tree)
       = {''my overlay.dtbo''}
   \<and> set (get_applied_overlays_base_names
        (run_command demo_tools (Apply ''my overlay.dts'' None [] False False) empty_tree))
       \<noteq> staged_files
        (run_command demo_tools (Apply ''my overlay.dts'' None [] False False) empty_tree)"
proof -
  have ap: "get_applied_overlays_base_names
        (run_command demo_tools (Apply ''my overlay.dts'' None [] False False) empty_tree)
       = [''my'', ''overlay.dtbo'']"
    unfolding spaced_apply
    by (simp add: get_applied_overlays_base_names_def parse_overlays_txt_def newline_def)
  have st: "staged_files
        (run_command demo_tools (Apply ''my overlay.dts'' None [] False False) empty_tree)
       = {''my overlay.dtbo''}"
    unfolding spaced_apply by (simp add: staged_files_def)
  have ne: "set [''my'', ''overlay.dtbo''] \<noteq> {''my overlay.dtbo''}" by simp
  from empty_tree_fresh ap st ne show ?thesis by simp
qed

section \<open>Results about the path functions\<close>

lemma endswith_sep: "endswith a ''/'' \<longleftrightarrow> a \<noteq> [] \<and> last a = CHR ''/''"
proof (cases a rule: rev_cases)
  case Nil
  then show ?thesis by (simp add: endswith_def)
next
  case (snoc ys y)
  then show ?thesis by (auto simp add: endswith_def)
qed

lemma no_sep_rev: "CHR ''/'' \<notin> set b \<Longrightarrow> c \<in> set (rev b) \<Longrightarrow> c \<noteq> CHR ''/''"
  by auto

lemma basename_append_sep:
  assumes "CHR ''/'' \<notin> set b"
  shows "basename (x @ ''/'' @ b) = b"
proof -
  have "takeWhile (\<lambda>c. c \<noteq> CHR ''/'') (rev b @ CHR ''/'' # rev x)
          = rev b @ takeWhile (\<lambda>c. c \<noteq> CHR ''/'') (CHR ''/'' # rev x)"
    by (rule takeWhile_append2) (rule no_sep_rev [OF assms])
  then show ?thesis by (simp add: basename_def)
qed

lemma basename_no_sep:
  assumes "CHR ''/'' \<notin> set b"
  shows "basename b = b"
proof -
  have h: "takeWhile (\<lambda>c. c \<noteq> CHR ''/'') (rev b) = rev b"
    by (simp only: takeWhile_eq_all_conv) (use assms in auto)
  show ?thesis unfolding basename_def h by simp
qed

lemma basename_path_join:
  assumes "CHR ''/'' \<notin> set b"
  shows "basename (path_join d b) = b"
proof -
  have nb: "take 1 b \<noteq> ''/''" using assms by (cases b) auto
  show ?thesis
  proof (cases "d = []")
    case True
    then show ?thesis using nb assms by (simp add: path_join_def basename_no_sep)
  next
    case False
    show ?thesis
    proof (cases "last d = CHR ''/''")
      case True
      obtain d' where d: "d = d' @ ''/''"
        using False True by (metis append_butlast_last_id)
      have "path_join d b = d' @ ''/'' @ b"
        using nb False True d by (simp add: path_join_def endswith_sep)
      then show ?thesis using basename_append_sep [OF assms] by simp
    next
      case nl: False
      have "path_join d b = d @ ''/'' @ b"
        using nb False nl by (simp add: path_join_def endswith_sep)
      then show ?thesis using basename_append_sep [OF assms] by simp
    qed
  qed
qed

lemma head_append_sep:
  assumes "CHR ''/'' \<notin> set b"
  shows "rev (dropWhile (\<lambda>c. c \<noteq> CHR ''/'') (rev (x @ ''/'' @ b))) = x @ ''/''"
proof -
  have "dropWhile (\<lambda>c. c \<noteq> CHR ''/'') (rev b @ CHR ''/'' # rev x)
          = dropWhile (\<lambda>c. c \<noteq> CHR ''/'') (CHR ''/'' # rev x)"
    by (rule dropWhile_append2) (rule no_sep_rev [OF assms])
  then show ?thesis by simp
qed

lemma head_no_sep:
  assumes "CHR ''/'' \<notin> set b"
  shows "rev (dropWhile (\<lambda>c. c \<noteq> CHR ''/'') (rev b)) = []"
proof -
  have h: "dropWhile (\<lambda>c. c \<noteq> CHR ''/'') (rev b) = []"
    by (simp only: dropWhile_eq_Nil_conv) (use assms in auto)
  show ?thesis unfolding h by simp
qed

lemma rstrip_sep_snoc: "d \<noteq> [] \<Longrightarrow> last d \<noteq> CHR ''/'' \<Longrightarrow> rstrip_sep (d @ ''/'') = d"
proof -
  assume a: "d \<noteq> []" "last d \<noteq> CHR ''/''"
  then have "hd (rev d) \<noteq> CHR ''/''" by (simp add: hd_rev)
  then have "dropWhile (\<lambda>c. c = CHR ''/'') (rev d) = rev d"
    using a(1) by (cases "rev d") auto
  then show ?thesis by (simp add: rstrip_sep_def)
qed

lemma rstrip_sep_last:
  assumes "\<exists>c \<in> set h. c \<noteq> CHR ''/''"
  shows "rstrip_sep h \<noteq> [] \<and> last (rstrip_sep h) \<noteq> CHR ''/''"
proof -
  let ?r = "dropWhile (\<lambda>c. c = CHR ''/'') (rev h)"
  have ne: "?r \<noteq> []" using assms by (auto simp add: dropWhile_eq_Nil_conv)
  then have "hd ?r \<noteq> CHR ''/''" using hd_dropWhile [of "\<lambda>c. c = CHR ''/''" "rev h"] by blast
  then show ?thesis using ne by (simp add: rstrip_sep_def last_rev)
qed

lemma dirname_unfold:
  "dirname p =
     (if rev (dropWhile (\<lambda>c. c \<noteq> CHR ''/'') (rev p)) \<noteq> []
           \<and> (\<exists>c \<in> set (rev (dropWhile (\<lambda>c. c \<noteq> CHR ''/'') (rev p))). c \<noteq> CHR ''/'')
      then rstrip_sep (rev (dropWhile (\<lambda>c. c \<noteq> CHR ''/'') (rev p)))
      else rev (dropWhile (\<lambda>c. c \<noteq> CHR ''/'') (rev p)))"
  unfolding dirname_def Let_def by (rule refl)

lemma dirname_shape:
  "dirname p = [] \<or> (dirname p \<noteq> [] \<and> (\<forall>c \<in> set (dirname p). c = CHR ''/''))
     \<or> (dirname p \<noteq> [] \<and> last (dirname p) \<noteq> CHR ''/'')"
proof -
  define head where "head = rev (dropWhile (\<lambda>c. c \<noteq> CHR ''/'') (rev p))"
  have d: "dirname p = (if head \<noteq> [] \<and> (\<exists>c \<in> set head. c \<noteq> CHR ''/'')
                         then rstrip_sep head else head)"
    unfolding head_def by (rule dirname_unfold)
  show ?thesis
  proof (cases "head \<noteq> [] \<and> (\<exists>c \<in> set head. c \<noteq> CHR ''/'')")
    case True
    have "dirname p = rstrip_sep head" by (rule trans [OF d if_P [OF True]])
    moreover have "rstrip_sep head \<noteq> [] \<and> last (rstrip_sep head) \<noteq> CHR ''/''"
      using rstrip_sep_last [of head] True by blast
    ultimately show ?thesis by metis
  next
    case False
    have e: "dirname p = head" by (rule trans [OF d if_not_P [OF False]])
    from False have "head = [] \<or> (\<forall>c \<in> set head. c = CHR ''/'')" by blast
    then show ?thesis unfolding e by blast
  qed
qed

lemma path_join_cases:
  assumes "take 1 b \<noteq> ''/''"
  shows "path_join [] b = b"
    and "path_join (x @ ''/'') b = x @ ''/'' @ b"
    and "d \<noteq> [] \<Longrightarrow> last d \<noteq> CHR ''/'' \<Longrightarrow> path_join d b = d @ ''/'' @ b"
  using assms by (simp_all add: path_join_def endswith_sep)

lemma dirname_of_head:
  assumes "rev (dropWhile (\<lambda>c. c \<noteq> CHR ''/'') (rev q)) = h"
  shows "dirname q = (if h \<noteq> [] \<and> (\<exists>c \<in> set h. c \<noteq> CHR ''/'') then rstrip_sep h else h)"
  unfolding assms [symmetric] by (rule dirname_unfold)

lemma dirname_join_shape:
  assumes "CHR ''/'' \<notin> set b"
    and "d = [] \<or> (d \<noteq> [] \<and> (\<forall>c \<in> set d. c = CHR ''/''))
           \<or> (d \<noteq> [] \<and> last d \<noteq> CHR ''/'')"
  shows "dirname (path_join d b) = d"
proof -
  have nb: "take 1 b \<noteq> ''/''" using assms(1) by (cases b) auto
  from assms(2) show ?thesis
  proof (elim disjE conjE)
    assume e: "d = []"
    from dirname_of_head [OF head_no_sep [OF assms(1)]]
    have "dirname b = []" by simp
    then show ?thesis unfolding e path_join_cases(1) [OF nb] .
  next
    assume ne: "d \<noteq> []" and all: "\<forall>c \<in> set d. c = CHR ''/''"
    then have l: "last d = CHR ''/''" using last_in_set by blast
    obtain x where d: "d = x @ ''/''" using ne l by (metis append_butlast_last_id)
    have eq: "dirname (x @ ''/'' @ b) =
            (if x @ ''/'' \<noteq> [] \<and> (\<exists>c \<in> set (x @ ''/''). c \<noteq> CHR ''/'')
             then rstrip_sep (x @ ''/'') else x @ ''/'')"
      by (rule dirname_of_head [OF head_append_sep [OF assms(1)]])
    have c: "\<not> (x @ ''/'' \<noteq> [] \<and> (\<exists>c \<in> set (x @ ''/''). c \<noteq> CHR ''/''))"
      using all unfolding d by blast
    have "dirname (x @ ''/'' @ b) = x @ ''/''" by (rule trans [OF eq if_not_P [OF c]])
    then show ?thesis unfolding d path_join_cases(2) [OF nb] .
  next
    assume ne: "d \<noteq> []" and nl: "last d \<noteq> CHR ''/''"
    have eq: "dirname (d @ ''/'' @ b) =
            (if d @ ''/'' \<noteq> [] \<and> (\<exists>c \<in> set (d @ ''/''). c \<noteq> CHR ''/'')
             then rstrip_sep (d @ ''/'') else d @ ''/'')"
      by (rule dirname_of_head [OF head_append_sep [OF assms(1)]])
    have c: "d @ ''/'' \<noteq> [] \<and> (\<exists>c \<in> set (d @ ''/''). c \<noteq> CHR ''/'')"
      using nl last_in_set [OF ne] by auto
    have "dirname (d @ ''/'' @ b) = rstrip_sep (d @ ''/'')" by (rule trans [OF eq if_P [OF c]])
    then have "dirname (d @ ''/'' @ b) = d" unfolding rstrip_sep_snoc [OF ne nl] .
    then show ?thesis unfolding path_join_cases(3) [OF nb ne nl] .
  qed
qed

lemma dirname_path_join:
  assumes "CHR ''/'' \<notin> set b"
  shows "dirname (path_join (dirname p) b) = dirname p"
  by (rule dirname_join_shape [OF assms dirname_shape])

lemma path_join_absolute: "take 1 b = ''/'' \<Longrightarrow> path_join d b = b"
  by (simp add: path_join_def)

lemma get_applied_overlay_paths_tmp [simp]:
  "get_applied_overlay_paths (t\<lparr>tmp_files := x\<rparr>) names = get_applied_overlay_paths t names"
  by (induction names) (simp_all add: find_path_to_overlay_def)

lemma choose_dtb_path_explicit:
  "b \<noteq> [] \<Longrightarrow>
     choose_dtb_path env t (Some b) = Inr (path_join (dirname (fst (get_current_dtb_path env t))) b)"
  by (simp add: choose_dtb_path_def)

lemma dto_apply_with_device_tree:
  assumes "b \<noteq> []"
    and "dto_guard t = None"
    and "allow \<or> dtob_target_basename p \<notin> set (get_applied_overlays_base_names t)"
    and "build_dts env p inc = Some dtob"
    and "get_applied_overlay_paths t
           (remove1 (dtob_target_basename p) (get_applied_overlays_base_names t)) = Inr paths"
  shows "fst (dto_apply env p (Some b) inc allow True t) =
     (case modify_dtb_by_overlays env (t\<lparr>tmp_files := tmp_files t @ [Some dtob, Some []]\<rparr>)
             (path_join (dirname (fst (get_current_dtb_path env
                 (t\<lparr>tmp_files := tmp_files t @ [Some dtob]\<rparr>)))) b)
             (paths @ [TmpFile (length (tmp_files t))]) of
        None \<Rightarrow> Inl (SysExit (''error: overlay '' @ squote @ p @ squote @ '' is not applicable.''))
      | Some merged \<Rightarrow> Inr ())"
proof -
  let ?applied = "get_applied_overlays_base_names t"
  let ?target = "dtob_target_basename p"
  let ?t2 = "t\<lparr>tmp_files := tmp_files t @ [Some dtob]\<rparr>"
  have rm: "(if ?target \<in> set ?applied then remove1 ?target ?applied else ?applied)
                = remove1 ?target ?applied"
    by (simp add: remove1_idem)
  have nc: "\<not> (\<not> allow \<and> ?target \<in> set ?applied)" using assms(3) by blast
  have paths: "get_applied_overlay_paths ?t2 (remove1 ?target ?applied) = Inr paths"
    using assms(5) by simp
  have ta: "test_apply_overlays env p (Some b) (remove1 ?target ?applied) (length (tmp_files t)) ?t2 =
     (case modify_dtb_by_overlays env (t\<lparr>tmp_files := tmp_files t @ [Some dtob, Some []]\<rparr>)
             (path_join (dirname (fst (get_current_dtb_path env ?t2))) b)
             (paths @ [TmpFile (length (tmp_files t))]) of
        None \<Rightarrow> (Some (SysExit (''error: overlay '' @ squote @ p @ squote
                                   @ '' is not applicable.'')),
                  t\<lparr>tmp_files := tmp_files t @ [Some dtob, Some []]\<rparr>)
      | Some merged \<Rightarrow> (None, write_tmp (Suc (length (tmp_files t))) merged
                                (t\<lparr>tmp_files := tmp_files t @ [Some dtob, Some []]\<rparr>)))"
    unfolding test_apply_overlays_def choose_dtb_path_explicit [OF assms(1)] paths
      named_temporary_file_simps
    by (simp split: option.split)
  have "dto_apply env p (Some b) inc allow True t =
     (case test_apply_overlays env p (Some b) (remove1 ?target ?applied)
             (length (tmp_files t)) ?t2 of
        (Some e, t3) \<Rightarrow> (Inl e, t3)
      | (None, t3) \<Rightarrow> (Inr (), deploy_overlay ?target (length (tmp_files t))
                              (remove1 ?target ?applied) t3))"
    using assms(2,4) nc
    unfolding dto_apply_def Let_def rm named_temporary_file_simps write_new_tmp
    by auto
  then show ?thesis unfolding ta by (simp split: option.split)
qed

text \<open>
  C10 (as amended). When \<open>dto_apply\<close> runs with the test application and a non-empty
  device-tree argument, the blob it tests against is \<^verbatim>\<open>os.path.join\<close> of the directory of
  the image's current device-tree blob and the argument: the command succeeds exactly
  when the overlays apply to the blob at that path. For an argument that is a basename
  (no \<^verbatim>\<open>/\<close>) this is the file of that name in the directory of the current blob. An
  argument that starts with \<^verbatim>\<open>/\<close> is used as it is, whatever directory it points to.
\<close>

theorem C10_device_tree_argument:
  assumes "b \<noteq> []"
    and "dto_guard t = None"
    and "allow_reapply
           \<or> dtob_target_basename dtos_path \<notin> set (get_applied_overlays_base_names t)"
    and "build_dts env dtos_path include_dirs = Some dtob"
    and "get_applied_overlay_paths t
           (remove1 (dtob_target_basename dtos_path) (get_applied_overlays_base_names t))
         = Inr paths"
    and "dtb = path_join (dirname (fst (get_current_dtb_path env
                 (t\<lparr>tmp_files := tmp_files t @ [Some dtob]\<rparr>)))) b"
  shows "choose_dtb_path env (t\<lparr>tmp_files := tmp_files t @ [Some dtob]\<rparr>) (Some b) = Inr dtb
     \<and> (fst (dto_apply env dtos_path (Some b) include_dirs allow_reapply True t) = Inr ()
          \<longleftrightarrow> modify_dtb_by_overlays env
                (t\<lparr>tmp_files := tmp_files t @ [Some dtob, Some []]\<rparr>) dtb
                (paths @ [TmpFile (length (tmp_files t))]) \<noteq> None)
     \<and> (CHR ''/'' \<notin> set b \<longrightarrow>
          dirname dtb = dirname (fst (get_current_dtb_path env
                 (t\<lparr>tmp_files := tmp_files t @ [Some dtob]\<rparr>)))
          \<and> basename dtb = b)
     \<and> (take 1 b = ''/'' \<longrightarrow> dtb = b)"
proof -
  have 1: "choose_dtb_path env (t\<lparr>tmp_files := tmp_files t @ [Some dtob]\<rparr>) (Some b) = Inr dtb"
    unfolding assms(6) by (rule choose_dtb_path_explicit [OF assms(1)])
  have 2: "fst (dto_apply env dtos_path (Some b) include_dirs allow_reapply True t) = Inr ()
          \<longleftrightarrow> modify_dtb_by_overlays env
                (t\<lparr>tmp_files := tmp_files t @ [Some dtob, Some []]\<rparr>) dtb
                (paths @ [TmpFile (length (tmp_files t))]) \<noteq> None"
    unfolding dto_apply_with_device_tree [OF assms(1-5)] assms(6)
    by (simp split: option.split)
  have 3: "CHR ''/'' \<notin> set b \<longrightarrow>
          dirname dtb = dirname (fst (get_current_dtb_path env
                 (t\<lparr>tmp_files := tmp_files t @ [Some dtob]\<rparr>)))
          \<and> basename dtb = b"
    unfolding assms(6) using dirname_path_join basename_path_join by blast
  have 4: "take 1 b = ''/'' \<longrightarrow> dtb = b"
    unfolding assms(6) using path_join_absolute by blast
  from 1 2 3 4 show ?thesis by blast
qed


lemma empty_tree_applied: "get_applied_overlays_base_names empty_tree = []"
  by (simp add: get_applied_overlays_base_names_def empty_tree_def)

lemma demo_current_dtb:
  "get_current_dtb_path demo_tools t =
     (''/sysroot/usr/lib/modules/5.4.77/dtb/imx8qm-apalis.dtb'', True)"
  "get_current_dtb_path picky_tools t =
     (''/sysroot/usr/lib/modules/5.4.77/dtb/imx8qm-apalis.dtb'', True)"
  by (simp_all add: demo_tools_def picky_tools_def)

lemma demo_dtb_dir:
  "dirname ''/sysroot/usr/lib/modules/5.4.77/dtb/imx8qm-apalis.dtb''
     = ''/sysroot/usr/lib/modules/5.4.77/dtb''"
  by code_simp

lemma join_relative:
  "path_join ''/sysroot/usr/lib/modules/5.4.77/dtb'' ''other.dtb''
     = ''/sysroot/usr/lib/modules/5.4.77/dtb/other.dtb''"
  by code_simp

lemma join_absolute:
  "path_join ''/sysroot/usr/lib/modules/5.4.77/dtb'' ''/tmp/other.dtb'' = ''/tmp/other.dtb''"
  by (simp add: path_join_def)

lemma dirname_tmp: "dirname ''/tmp/other.dtb'' = ''/tmp''"
  by code_simp

theorem C10_witness:
  "''other.dtb'' \<noteq> []
   \<and> dto_guard empty_tree = None
   \<and> dtob_target_basename ''a.dts'' \<notin> set (get_applied_overlays_base_names empty_tree)
   \<and> build_dts demo_tools ''a.dts'' [] = Some ''blob of a.dts''
   \<and> fst (dto_apply demo_tools ''a.dts'' (Some ''other.dtb'') [] False True empty_tree) = Inr ()
   \<and> choose_dtb_path demo_tools (empty_tree\<lparr>tmp_files := tmp_files empty_tree @ [Some ''blob of a.dts'']\<rparr>)
        (Some ''other.dtb'') = Inr ''/sysroot/usr/lib/modules/5.4.77/dtb/other.dtb''
   \<and> dirname ''/sysroot/usr/lib/modules/5.4.77/dtb/other.dtb''
        = dirname ''/sysroot/usr/lib/modules/5.4.77/dtb/imx8qm-apalis.dtb''
   \<and> basename ''/sysroot/usr/lib/modules/5.4.77/dtb/other.dtb'' = ''other.dtb''"
proof -
  have h1: "''other.dtb'' \<noteq> []" by simp
  have h3: "False \<or> dtob_target_basename ''a.dts''
               \<notin> set (get_applied_overlays_base_names empty_tree)"
    by (simp add: empty_tree_applied)
  have h4: "build_dts demo_tools ''a.dts'' [] = Some ''blob of a.dts''"
    by (simp add: demo_tools_def)
  have h5: "get_applied_overlay_paths empty_tree
           (remove1 (dtob_target_basename ''a.dts'') (get_applied_overlays_base_names empty_tree))
         = Inr []"
    by (simp add: empty_tree_applied)
  have h6: "''/sysroot/usr/lib/modules/5.4.77/dtb/other.dtb'' =
      path_join (dirname (fst (get_current_dtb_path demo_tools
          (empty_tree\<lparr>tmp_files := tmp_files empty_tree @ [Some ''blob of a.dts'']\<rparr>))))
        ''other.dtb''"
    unfolding demo_current_dtb fst_conv demo_dtb_dir join_relative by (rule refl)
  have m: "modify_dtb_by_overlays demo_tools
             (empty_tree\<lparr>tmp_files := tmp_files empty_tree @ [Some ''blob of a.dts'', Some []]\<rparr>)
             ''/sysroot/usr/lib/modules/5.4.77/dtb/other.dtb''
             ([] @ [TmpFile (length (tmp_files empty_tree))]) \<noteq> None"
    by (simp add: demo_tools_def)
  have ns: "CHR ''/'' \<notin> set ''other.dtb''" by simp
  note th = C10_device_tree_argument [OF h1 empty_tree_guard h3 h4 h5 h6]
  have c1: "choose_dtb_path demo_tools
        (empty_tree\<lparr>tmp_files := tmp_files empty_tree @ [Some ''blob of a.dts'']\<rparr>)
        (Some ''other.dtb'') = Inr ''/sysroot/usr/lib/modules/5.4.77/dtb/other.dtb''"
    using th by blast
  have c2: "fst (dto_apply demo_tools ''a.dts'' (Some ''other.dtb'') [] False True empty_tree) = Inr ()"
    using th m by blast
  have c3: "dirname ''/sysroot/usr/lib/modules/5.4.77/dtb/other.dtb''
        = dirname (fst (get_current_dtb_path demo_tools
            (empty_tree\<lparr>tmp_files := tmp_files empty_tree @ [Some ''blob of a.dts'']\<rparr>)))
     \<and> basename ''/sysroot/usr/lib/modules/5.4.77/dtb/other.dtb'' = ''other.dtb''"
    using th ns by blast
  have c4: "dirname ''/sysroot/usr/lib/modules/5.4.77/dtb/other.dtb''
        = dirname ''/sysroot/usr/lib/modules/5.4.77/dtb/imx8qm-apalis.dtb''"
    using c3 unfolding demo_current_dtb fst_conv by blast
  have g: "dtob_target_basename ''a.dts'' \<notin> set (get_applied_overlays_base_names empty_tree)"
    by (simp add: empty_tree_applied)
  from h1 empty_tree_guard g h4 c1 c2 c3 c4 show ?thesis by blast
qed

text \<open>
  C10 as stated fails for an argument that starts with \<^verbatim>\<open>/\<close>: the test runs against the
  path given, outside the directory of the current device-tree blob. With a test tool
  that accepts only \<^verbatim>\<open>/tmp/other.dtb\<close>, the command succeeds for that argument.
\<close>

theorem C10_counterexample:
  "get_current_dtb_path picky_tools empty_tree =
     (''/sysroot/usr/lib/modules/5.4.77/dtb/imx8qm-apalis.dtb'', True)
   \<and> choose_dtb_path picky_tools empty_tree (Some ''/tmp/other.dtb'') = Inr ''/tmp/other.dtb''
   \<and> dirname ''/tmp/other.dtb'' = ''/tmp''
   \<and> dirname ''/sysroot/usr/lib/modules/5.4.77/dtb/imx8qm-apalis.dtb''
        = ''/sysroot/usr/lib/modules/5.4.77/dtb''
   \<and> fst (dto_apply picky_tools ''a.dts'' (Some ''/tmp/other.dtb'') [] False True empty_tree)
        = Inr ()"
proof -
  have c: "choose_dtb_path picky_tools empty_tree (Some ''/tmp/other.dtb'') = Inr ''/tmp/other.dtb''"
    unfolding choose_dtb_path_def demo_current_dtb fst_conv demo_dtb_dir
    by (simp add: join_absolute)
  have h1: "''/tmp/other.dtb'' \<noteq> []" by simp
  have h3: "False \<or> dtob_target_basename ''a.dts''
               \<notin> set (get_applied_overlays_base_names empty_tree)"
    by (simp add: empty_tree_applied)
  have h4: "build_dts picky_tools ''a.dts'' [] = Some ''blob of a.dts''"
    by (simp add: picky_tools_def demo_tools_def)
  have h5: "get_applied_overlay_paths empty_tree
           (remove1 (dtob_target_basename ''a.dts'') (get_applied_overlays_base_names empty_tree))
         = Inr []"
    by (simp add: empty_tree_applied)
  have r: "fst (dto_apply picky_tools ''a.dts'' (Some ''/tmp/other.dtb'') [] False True empty_tree)
        = Inr ()"
    unfolding dto_apply_with_device_tree [OF h1 empty_tree_guard h3 h4 h5]
      demo_current_dtb fst_conv demo_dtb_dir join_absolute
    by (simp add: picky_tools_def)
  from demo_current_dtb(2) c dirname_tmp demo_dtb_dir r show ?thesis by blast
qed

end
